theory Spec2Isabelle
  imports Main "HOL-Library.Sublist"
begin

section \<open>JavaScript values\<close>

text \<open>
  The bridge, the sandbox controller and the context manager pass around values of type
  \<^verbatim>\<open>any\<close>: tool arguments, tool results, schemas.  They are modelled as the JSON
  values plus \<^verbatim>\<open>undefined\<close>.  An object is an association list in insertion order
  (a property that is set again keeps its place, a new one goes to the end); property
  lookup is lookup of own properties.  Numbers are the integers: the code below only asks
  whether a number is zero and how it prints.  Strings are lists of characters.
\<close>

datatype jsval =
    JUndefined
  | JNull
  | JBool bool
  | JNum int
  | JStr string
  | JArr "jsval list"
  | JObj "(string \<times> jsval) list"

text \<open>ToBoolean: what \<^verbatim>\<open>if (v)\<close>, \<^verbatim>\<open>!v\<close> and \<^verbatim>\<open>a || b\<close> test.\<close>

fun truthy :: "jsval \<Rightarrow> bool" where
  "truthy JUndefined = False"
| "truthy JNull = False"
| "truthy (JBool b) = b"
| "truthy (JNum n) = (n \<noteq> 0)"
| "truthy (JStr s) = (s \<noteq> [])"
| "truthy (JArr xs) = True"
| "truthy (JObj kvs) = True"

text \<open>\<^verbatim>\<open>a || b\<close> on values.\<close>

definition js_or :: "jsval \<Rightarrow> jsval \<Rightarrow> jsval" where
  "js_or a b = (if truthy a then a else b)"

fun typeof :: "jsval \<Rightarrow> string" where
  "typeof JUndefined = ''undefined''"
| "typeof JNull = ''object''"
| "typeof (JBool b) = ''boolean''"
| "typeof (JNum n) = ''number''"
| "typeof (JStr s) = ''string''"
| "typeof (JArr xs) = ''object''"
| "typeof (JObj kvs) = ''object''"

fun isArray :: "jsval \<Rightarrow> bool" where
  "isArray (JArr xs) = True"
| "isArray v = False"

subsection \<open>Printing numbers and strings\<close>

definition digit_char :: "nat \<Rightarrow> char" where
  "digit_char d = ''0123456789'' ! d"

fun show_nat :: "nat \<Rightarrow> string" where
  "show_nat n = (if n < 10 then [digit_char n] else show_nat (n div 10) @ [digit_char (n mod 10)])"

declare show_nat.simps [simp del]

definition show_int :: "int \<Rightarrow> string" where
  "show_int i = (if i < 0 then CHR ''-'' # show_nat (nat (- i)) else show_nat (nat i))"

fun join :: "string \<Rightarrow> string list \<Rightarrow> string" where
  "join sep [] = []"
| "join sep [x] = x"
| "join sep (x # y # ys) = x @ sep @ join sep (y # ys)"

subsection \<open>JSON.stringify\<close>

definition hex_char :: "nat \<Rightarrow> char" where
  "hex_char d = ''0123456789abcdef'' ! d"

text \<open>QuoteJSONString: the two-character escapes, \<^verbatim>\<open>\u00xx\<close> for the other control
  characters, everything else as it is.\<close>

definition escape_char :: "char \<Rightarrow> string" where
  "escape_char c =
     (if c = CHR 0x22 then [CHR 0x5C, CHR 0x22]
      else if c = CHR 0x5C then [CHR 0x5C, CHR 0x5C]
      else if c = CHR 0x08 then [CHR 0x5C, CHR ''b'']
      else if c = CHR 0x0C then [CHR 0x5C, CHR ''f'']
      else if c = CHR 0x0A then [CHR 0x5C, CHR ''n'']
      else if c = CHR 0x0D then [CHR 0x5C, CHR ''r'']
      else if c = CHR 0x09 then [CHR 0x5C, CHR ''t'']
      else if (of_char c :: nat) < 32
        then [CHR 0x5C, CHR ''u'', CHR ''0'', CHR ''0'',
              hex_char (of_char c div 16), hex_char (of_char c mod 16)]
      else [c])"

definition quote_json :: "string \<Rightarrow> string" where
  "quote_json s = CHR 0x22 # concat (map escape_char s) @ [CHR 0x22]"

text \<open>The serialisation of a value in element position: \<^verbatim>\<open>undefined\<close> prints as
  \<^verbatim>\<open>null\<close> inside an array, and an object leaves out the properties whose value is
  \<^verbatim>\<open>undefined\<close>.\<close>

fun stringify_val :: "jsval \<Rightarrow> string" where
  "stringify_val JUndefined = ''null''"
| "stringify_val JNull = ''null''"
| "stringify_val (JBool b) = (if b then ''true'' else ''false'')"
| "stringify_val (JNum n) = show_int n"
| "stringify_val (JStr s) = quote_json s"
| "stringify_val (JArr xs) = ''['' @ join '','' (map stringify_val xs) @ '']''"
| "stringify_val (JObj kvs) =
     ''{'' @ join '',''
        (map (\<lambda>(k, v). quote_json k @ '':'' @ stringify_val v)
          (filter (\<lambda>(k, v). v \<noteq> JUndefined) kvs)) @ ''}''"

text \<open>\<^verbatim>\<open>JSON.stringify(v)\<close>: \<^verbatim>\<open>undefined\<close> (here \<open>None\<close>) for
  \<^verbatim>\<open>undefined\<close>, a string otherwise.\<close>

definition JSON_stringify :: "jsval \<Rightarrow> string option" where
  "JSON_stringify v = (if v = JUndefined then None else Some (stringify_val v))"

section \<open>Savings accountant\<close>

text \<open>An entry of \<^verbatim>\<open>ToolOrchestrationSandbox.toolCalls\<close>; an absent
  \<^verbatim>\<open>result\<close> is \<^verbatim>\<open>undefined\<close>.\<close>

record tool_call =
  tc_toolName :: string
  tc_args :: jsval
  tc_result :: jsval
  tc_error :: "string option"
  tc_isMCP :: bool

record token_savings =
  intermediateResultTokens :: int
  roundTripContextTokens :: int
  toolCallOverheadTokens :: int
  llmDecisionTokens :: int
  totalSaved :: int
  breakdown :: string
  mcpToolCalls :: int
  localToolCalls :: int

text \<open>\<^verbatim>\<open>Math.ceil(resultStr.length / 4)\<close> for the serialisation of a truthy result
  (a truthy value always serialises to a string).\<close>

definition result_tokens :: "jsval \<Rightarrow> int" where
  "result_tokens r = - ((- int (length (stringify_val r))) div 4)"

text \<open>The first loop: the token counts of the truthy results, in order.\<close>

definition resultSizes :: "tool_call list \<Rightarrow> int list" where
  "resultSizes toolCalls = map (result_tokens \<circ> tc_result) (filter (truthy \<circ> tc_result) toolCalls)"

text \<open>\<^verbatim>\<open>resultSizes[j] || 50\<close>: an index past the end reads \<^verbatim>\<open>undefined\<close>.\<close>

definition size_or_50 :: "int list \<Rightarrow> nat \<Rightarrow> int" where
  "size_or_50 sizes j = (if j < length sizes \<and> sizes ! j \<noteq> 0 then sizes ! j else 50)"

text \<open>The second loop, \<^verbatim>\<open>for (let i = 1; i < numCalls; i++)\<close>, on the pair
  (accumulatedResults, roundTripContextTokens).\<close>

function roundTrip_loop :: "int list \<Rightarrow> int \<Rightarrow> nat \<Rightarrow> nat \<Rightarrow> int \<times> int \<Rightarrow> int \<times> int" where
  "roundTrip_loop sizes base numCalls i (accumulatedResults, roundTrip) =
     (if i < numCalls
      then (let accumulatedResults' = accumulatedResults + size_or_50 sizes (i - 1)
            in roundTrip_loop sizes base numCalls (i + 1)
                 (accumulatedResults', roundTrip + (base + accumulatedResults')))
      else (accumulatedResults, roundTrip))"
  by pat_completeness auto
termination
  by (relation "measure (\<lambda>(sizes, base, numCalls, i, st). numCalls - i)") auto

declare roundTrip_loop.simps [simp del]

text \<open>The box-drawing prefixes of the breakdown lines, as UTF-8.\<close>

definition tee :: string where
  "tee = [CHR 0xE2, CHR 0x94, CHR 0x9C, CHR 0xE2, CHR 0x94, CHR 0x80, CHR '' '']"

definition corner :: string where
  "corner = [CHR 0xE2, CHR 0x94, CHR 0x94, CHR 0xE2, CHR 0x94, CHR 0x80, CHR '' '']"

text \<open>\<^verbatim>\<open>getComprehensiveTokenSavings(baseContextTokens = 7000)\<close>.  The rendering
  \<^verbatim>\<open>Number.prototype.toLocaleString\<close> depends on the host's locale and is a
  parameter.\<close>

definition getComprehensiveTokenSavings ::
    "(int \<Rightarrow> string) \<Rightarrow> tool_call list \<Rightarrow> int \<Rightarrow> token_savings" where
  "getComprehensiveTokenSavings toLocaleString toolCalls baseContextTokens =
     (let numCalls = length toolCalls;
          mcpCalls = length (filter tc_isMCP toolCalls);
          localCalls = int numCalls - int mcpCalls
      in if numCalls \<le> 1 then
           \<lparr> intermediateResultTokens = 0, roundTripContextTokens = 0,
             toolCallOverheadTokens = 0, llmDecisionTokens = 0, totalSaved = 0,
             breakdown = ''No savings (single tool call)'',
             mcpToolCalls = int mcpCalls, localToolCalls = localCalls \<rparr>
         else
           (let sizes = resultSizes toolCalls;
                intermediate = sum_list sizes;
                roundTrip = snd (roundTrip_loop sizes baseContextTokens numCalls 1 (0, 0));
                overhead = int numCalls * 40;
                decisions = (int numCalls - 1) * 80;
                total = intermediate + roundTrip + overhead + decisions
            in \<lparr> intermediateResultTokens = intermediate, roundTripContextTokens = roundTrip,
                 toolCallOverheadTokens = overhead, llmDecisionTokens = decisions,
                 totalSaved = total,
                 breakdown = join [CHR 0x0A]
                   [show_nat numCalls @ '' tool calls executed in sandbox ('' @ show_int localCalls
                      @ '' local, '' @ show_nat mcpCalls @ '' MCP)'',
                    tee @ ''Intermediate results not sent to LLM: '' @ toLocaleString intermediate
                      @ '' tokens'',
                    tee @ ''Context re-sends avoided: '' @ toLocaleString roundTrip @ '' tokens'',
                    tee @ ''Tool call JSON overhead avoided: '' @ toLocaleString overhead
                      @ '' tokens'',
                    corner @ ''LLM decision outputs avoided: '' @ toLocaleString decisions
                      @ '' tokens''],
                 mcpToolCalls = int mcpCalls, localToolCalls = localCalls \<rparr>))"

text \<open>The savings part of the metadata that \<^verbatim>\<open>createCodeExecutionTool\<close> returns.\<close>

record savings_metadata =
  intermediateTokensSaved :: int
  totalTokensSaved :: int
  intermediateResults :: int
  roundTripContext :: int
  toolCallOverhead :: int
  llmDecisions :: int
  savingsExplanation :: string

definition savings_metadata_of :: "token_savings \<Rightarrow> savings_metadata" where
  "savings_metadata_of tokenSavings =
     \<lparr> intermediateTokensSaved = intermediateResultTokens tokenSavings,
       totalTokensSaved = totalSaved tokenSavings,
       intermediateResults = intermediateResultTokens tokenSavings,
       roundTripContext = roundTripContextTokens tokenSavings,
       toolCallOverhead = toolCallOverheadTokens tokenSavings,
       llmDecisions = llmDecisionTokens tokenSavings,
       savingsExplanation = breakdown tokenSavings \<rparr>"

text \<open>An execution with a single local tool call.\<close>

definition one_call :: "tool_call list" where
  "one_call =
     [\<lparr> tc_toolName = ''getUser'', tc_args = JArr [JObj [(''id'', JStr ''1'')]],
        tc_result = JObj [(''id'', JStr ''1''), (''score'', JNum 10)],
        tc_error = None, tc_isMCP = False \<rparr>]"

subsection \<open>Property access\<close>

text \<open>The index a property key denotes in a sequence of length \<open>n\<close>, if any: the key is
  the decimal numeral of a position below \<open>n\<close>.\<close>

definition index_of_key :: "nat \<Rightarrow> string \<Rightarrow> nat option" where
  "index_of_key n k = find (\<lambda>i. show_nat i = k) [0..<n]"

text \<open>\<^verbatim>\<open>v[k]\<close> and \<^verbatim>\<open>v.k\<close> for a value other than \<^verbatim>\<open>null\<close> and
  \<^verbatim>\<open>undefined\<close>, on which the access throws a TypeError: every use below is on a value
  known to be neither, or models the throw.  Own properties only: a primitive has none
  but the length and the positions of a string.\<close>

fun js_get :: "jsval \<Rightarrow> string \<Rightarrow> jsval" where
  "js_get (JObj kvs) k = (case map_of kvs k of Some v \<Rightarrow> v | None \<Rightarrow> JUndefined)"
| "js_get (JArr xs) k =
     (if k = ''length'' then JNum (int (length xs))
      else case index_of_key (length xs) k of Some i \<Rightarrow> xs ! i | None \<Rightarrow> JUndefined)"
| "js_get (JStr s) k =
     (if k = ''length'' then JNum (int (length s))
      else case index_of_key (length s) k of Some i \<Rightarrow> JStr [s ! i] | None \<Rightarrow> JUndefined)"
| "js_get v k = JUndefined"

text \<open>\<^verbatim>\<open>k in v\<close> for an object or an array.\<close>

fun has_key :: "jsval \<Rightarrow> string \<Rightarrow> bool" where
  "has_key (JObj kvs) k = (k \<in> fst ` set kvs)"
| "has_key (JArr xs) k = (k = ''length'' \<or> index_of_key (length xs) k \<noteq> None)"
| "has_key v k = False"

section \<open>Context filter\<close>

text \<open>A \<^verbatim>\<open>CoreMessage\<close>: a role and a content that is a string or a sequence of
  part objects.\<close>

datatype role = System | User | Assistant | Tool

datatype content = Text string | Parts "(string \<times> jsval) list list"

record message =
  msg_role :: role
  msg_content :: content

record context_manager =
  messageHistory :: "message list"
  tokensSaved :: int

definition content_value :: "content \<Rightarrow> jsval" where
  "content_value c = (case c of Text s \<Rightarrow> JStr s | Parts ps \<Rightarrow> JArr (map JObj ps))"

text \<open>\<^verbatim>\<open>estimateTokens\<close>: one token per four characters of the serialised content,
  rounded up.\<close>

definition estimateTokens :: "message \<Rightarrow> int" where
  "estimateTokens message =
     - ((- int (length (stringify_val (content_value (msg_content message))))) div 4)"

text \<open>The test of \<^verbatim>\<open>content.some(...)\<close> on one part.\<close>

definition isCodeExecutionPart :: "(string \<times> jsval) list \<Rightarrow> bool" where
  "isCodeExecutionPart part =
     (js_get (JObj part) ''type'' = JStr ''tool-result''
      \<and> js_get (JObj part) ''toolName'' = JStr ''code_execution'')"

text \<open>The flag \<^verbatim>\<open>isCodeExecution\<close> that \<^verbatim>\<open>addMessage\<close> computes for a tool
  message.  \<^verbatim>\<open>JSON.parse\<close> is the runtime's and a parameter (\<open>None\<close> when it
  throws); reading \<^verbatim>\<open>toolName\<close> of a parsed \<^verbatim>\<open>null\<close> throws inside the same
  \<^verbatim>\<open>try\<close> and leaves the flag false.\<close>

definition isCodeExecution :: "(string \<Rightarrow> jsval option) \<Rightarrow> content \<Rightarrow> bool" where
  "isCodeExecution parse c =
     (case c of
        Text s \<Rightarrow>
          (case parse s of
             None \<Rightarrow> False
           | Some parsed \<Rightarrow>
               (if parsed = JNull then False
                else js_get parsed ''toolName'' = JStr ''code_execution''))
      | Parts ps \<Rightarrow> list_ex isCodeExecutionPart ps)"

text \<open>\<^verbatim>\<open>ContextManager.addMessage(message, options)\<close>; the flag is
  \<^verbatim>\<open>options?.isCodeExecutionResult\<close>.\<close>

definition addMessage ::
    "(string \<Rightarrow> jsval option) \<Rightarrow> context_manager \<Rightarrow> message \<Rightarrow> bool \<Rightarrow> context_manager" where
  "addMessage parse cm message isCodeExecutionResult =
     (if isCodeExecutionResult then cm\<lparr>messageHistory := messageHistory cm @ [message]\<rparr>
      else if msg_role message = Assistant \<or> msg_role message = User
        then cm\<lparr>messageHistory := messageHistory cm @ [message]\<rparr>
      else if msg_role message = Tool then
        (if isCodeExecution parse (msg_content message)
         then cm\<lparr>messageHistory := messageHistory cm @ [message]\<rparr>
         else cm\<lparr>tokensSaved := tokensSaved cm + estimateTokens message\<rparr>)
      else cm)"

definition new_context_manager :: context_manager where
  "new_context_manager = \<lparr> messageHistory = [], tokensSaved = 0 \<rparr>"

text \<open>A message stream fed to the filter: each message with the flag it is added with.\<close>

fun addMessages ::
    "(string \<Rightarrow> jsval option) \<Rightarrow> context_manager \<Rightarrow> (message \<times> bool) list \<Rightarrow> context_manager" where
  "addMessages parse cm [] = cm"
| "addMessages parse cm ((message, flag) # rest) =
     addMessages parse (addMessage parse cm message flag) rest"

definition getMessages :: "context_manager \<Rightarrow> message list" where
  "getMessages cm = messageHistory cm"

definition getTokensSaved :: "context_manager \<Rightarrow> int" where
  "getTokensSaved cm = tokensSaved cm"

text \<open>The tool-result parts of a message whose tool name is not
  \<^verbatim>\<open>code_execution\<close>.\<close>

definition foreign_tool_results :: "message \<Rightarrow> (string \<times> jsval) list list" where
  "foreign_tool_results m =
     (case msg_content m of
        Text s \<Rightarrow> []
      | Parts ps \<Rightarrow>
          filter (\<lambda>part. js_get (JObj part) ''type'' = JStr ''tool-result''
                     \<and> js_get (JObj part) ''toolName'' \<noteq> JStr ''code_execution'') ps)"

text \<open>A parser that rejects every text stands in for \<^verbatim>\<open>JSON.parse\<close> in the
  worked examples, none of which hands it a text.\<close>

definition rejecting_parse :: "string \<Rightarrow> jsval option" where
  "rejecting_parse s = None"

text \<open>Example messages: a conversation as in the specification's scenario, a tool
  message that carries the results of two tools, and a system prompt.\<close>

definition getUser_part :: "(string \<times> jsval) list" where
  "getUser_part =
     [(''type'', JStr ''tool-result''), (''toolCallId'', JStr ''c1''),
      (''toolName'', JStr ''getUser''), (''result'', JObj [(''id'', JStr ''1''), (''score'', JNum 10)])]"

definition code_execution_part :: "(string \<times> jsval) list" where
  "code_execution_part =
     [(''type'', JStr ''tool-result''), (''toolCallId'', JStr ''c2''),
      (''toolName'', JStr ''code_execution''), (''result'', JObj [(''avg'', JNum 20)])]"

definition user_msg :: message where
  "user_msg = \<lparr> msg_role = User, msg_content = Text ''average score?'' \<rparr>"

definition assistant_msg :: message where
  "assistant_msg = \<lparr> msg_role = Assistant, msg_content = Text ''running the tools'' \<rparr>"

definition getUser_msg :: message where
  "getUser_msg = \<lparr> msg_role = Tool, msg_content = Parts [getUser_part] \<rparr>"

definition code_execution_msg :: message where
  "code_execution_msg = \<lparr> msg_role = Tool, msg_content = Parts [code_execution_part] \<rparr>"

definition mixed_msg :: message where
  "mixed_msg = \<lparr> msg_role = Tool, msg_content = Parts [getUser_part, code_execution_part] \<rparr>"

definition system_msg :: message where
  "system_msg = \<lparr> msg_role = System, msg_content = Text ''You are a helpful assistant.'' \<rparr>"

section \<open>Response normalizer\<close>

subsection \<open>Objects, conversions, errors\<close>

text \<open>\<^verbatim>\<open>obj[k] = v\<close> on the properties of an object.\<close>

fun js_set :: "(string \<times> jsval) list \<Rightarrow> string \<Rightarrow> jsval \<Rightarrow> (string \<times> jsval) list" where
  "js_set [] k v = [(k, v)]"
| "js_set ((k', v') # kvs) k v = (if k' = k then (k, v) # kvs else (k', v') # js_set kvs k v)"

text \<open>\<^verbatim>\<open>Object.assign(target, source)\<close>, and a run of assignments
  \<^verbatim>\<open>target.k1 = v1; target.k2 = v2; ...\<close> alike: for each key of the source in
  order, the target's property is set to what the source holds under the key.\<close>

definition object_assign ::
    "(string \<times> jsval) list \<Rightarrow> (string \<times> jsval) list \<Rightarrow> (string \<times> jsval) list" where
  "object_assign target source =
     fold (\<lambda>k t. js_set t k (js_get (JObj source) k)) (map fst source) target"

text \<open>\<^verbatim>\<open>Object.entries(v)\<close>, which is also what \<^verbatim>\<open>{...v}\<close> copies: the own
  enumerable properties (the positions of an array or a string, not its length).\<close>

fun object_entries :: "jsval \<Rightarrow> (string \<times> jsval) list" where
  "object_entries (JObj kvs) = kvs"
| "object_entries (JArr xs) = zip (map show_nat [0..<length xs]) xs"
| "object_entries (JStr s) = zip (map show_nat [0..<length s]) (map (\<lambda>c. JStr [c]) s)"
| "object_entries v = []"

text \<open>\<^verbatim>\<open>String(v)\<close>; joining an array prints \<^verbatim>\<open>null\<close> and \<^verbatim>\<open>undefined\<close>
  elements as the empty string.\<close>

fun js_String :: "jsval \<Rightarrow> string" where
  "js_String JUndefined = ''undefined''"
| "js_String JNull = ''null''"
| "js_String (JBool b) = (if b then ''true'' else ''false'')"
| "js_String (JNum n) = show_int n"
| "js_String (JStr s) = s"
| "js_String (JArr xs) =
     join '','' (map (\<lambda>x. if x = JUndefined \<or> x = JNull then [] else js_String x) xs)"
| "js_String (JObj kvs) = ''[object Object]''"

text \<open>\<^verbatim>\<open>xs.join(sep)\<close>.\<close>

definition array_join :: "string \<Rightarrow> jsval list \<Rightarrow> string" where
  "array_join sep xs =
     join sep (map (\<lambda>x. if x = JUndefined \<or> x = JNull then [] else js_String x) xs)"

text \<open>\<^verbatim>\<open>s.includes(k)\<close> on strings.\<close>

fun str_includes :: "string \<Rightarrow> string \<Rightarrow> bool" where
  "str_includes [] k = (k = [])"
| "str_includes (c # cs) k = (prefix k (c # cs) \<or> str_includes cs k)"

text \<open>What the code throws: an \<^verbatim>\<open>Error\<close> of its own, or the runtime's TypeError.
  Either way the bridge reads the \<^verbatim>\<open>message\<close>.\<close>

datatype js_error = Error string | TypeError string

fun error_message :: "js_error \<Rightarrow> string" where
  "error_message (Error m) = m"
| "error_message (TypeError m) = m"

text \<open>The TypeError of reading property \<open>k\<close> of \<^verbatim>\<open>null\<close> or \<^verbatim>\<open>undefined\<close>, with
  the message Node's engine gives it.\<close>

definition cannot_read :: "jsval \<Rightarrow> string \<Rightarrow> js_error" where
  "cannot_read v k =
     TypeError (''Cannot read properties of '' @ js_String v @ '' (reading '' @ [CHR 0x27] @ k
                @ [CHR 0x27] @ '')'')"

subsection \<open>normalizeResponseStructure\<close>

text \<open>"Unwrap common wrapper structures": the value of \<^verbatim>\<open>mainData\<close>.\<close>

definition unwrap_main :: "jsval \<Rightarrow> jsval" where
  "unwrap_main data =
     (if js_get data ''data'' \<noteq> JUndefined then js_get data ''data''
      else if js_get data ''result'' \<noteq> JUndefined then js_get data ''result''
      else if js_get data ''results'' \<noteq> JUndefined then js_get data ''results''
      else if js_get data ''content'' \<noteq> JUndefined \<and> \<not> truthy (js_get data ''markdown'')
        then js_get data ''content''
      else data)"

text \<open>"Extract text content": the first value of \<^verbatim>\<open>textContent\<close>.\<close>

definition extract_text :: "jsval \<Rightarrow> jsval \<Rightarrow> jsval" where
  "extract_text data mainData =
     (if typeof (js_get data ''text'') = ''string'' then js_get data ''text''
      else if typeof mainData = ''string'' then mainData
      else if js_get data ''stdout'' \<noteq> JUndefined then js_get data ''stdout''
      else if js_get data ''output'' \<noteq> JUndefined then JStr (js_String (js_get data ''output''))
      else JStr [])"

text \<open>"Normalize to have consistent array accessor": the three branches on
  \<^verbatim>\<open>mainData\<close>, giving the result so far and \<^verbatim>\<open>textContent\<close>.  Reading position 0
  or the last position of an empty array gives \<^verbatim>\<open>undefined\<close>.\<close>

definition fill_accessors ::
    "(string \<times> jsval) list \<Rightarrow> jsval \<Rightarrow> jsval \<Rightarrow> (string \<times> jsval) list \<times> jsval" where
  "fill_accessors result mainData textContent =
     (case mainData of
        JArr xs \<Rightarrow>
          (object_assign result
             [(''items'', mainData), (''data'', mainData), (''length'', JNum (int (length xs))),
              (''first'', js_or (if xs = [] then JUndefined else hd xs) JNull),
              (''last'', js_or (if xs = [] then JUndefined else last xs) JNull)],
           textContent)
      | JObj kvs \<Rightarrow>
          (object_assign
             (object_assign result
                [(''items'', JArr [mainData]), (''data'', mainData), (''length'', JNum 1),
                 (''first'', mainData), (''last'', mainData)])
             kvs,
           textContent)
      | _ \<Rightarrow>
          (object_assign result
             [(''items'', JArr [mainData]), (''data'', mainData), (''value'', mainData),
              (''length'', JNum 1)],
           if typeof mainData = ''string'' then mainData else textContent))"

text \<open>"Add common aliases for text content": five assignments, each reading the result
  as the ones before left it.\<close>

definition add_aliases :: "(string \<times> jsval) list \<Rightarrow> jsval \<Rightarrow> (string \<times> jsval) list" where
  "add_aliases result textContent =
     (let r1 = js_set result ''text''
                 (js_or textContent (js_or (js_get (JObj result) ''text'') (JStr [])));
          r2 = js_set r1 ''output''
                 (js_or textContent (js_or (js_get (JObj r1) ''output'') (JStr [])));
          r3 = js_set r2 ''stdout''
                 (js_or textContent (js_or (js_get (JObj r2) ''stdout'') (JStr [])));
          r4 = js_set r3 ''content''
                 (js_or textContent (js_or (js_get (JObj r3) ''content'') (js_get (JObj r3) ''data'')));
          r5 = js_set r4 ''value''
                 (js_or (js_get (JObj r4) ''value'') (js_or textContent (js_get (JObj r4) ''data'')))
      in r5)"

text \<open>"Preserve error information with common aliases".\<close>

definition surface_error :: "jsval \<Rightarrow> (string \<times> jsval) list \<Rightarrow> (string \<times> jsval) list" where
  "surface_error data result =
     (if truthy (js_get data ''error'')
      then object_assign result
             [(''error'', js_get data ''error''), (''stderr'', js_get data ''error''),
              (''success'', JBool False)]
      else result)"

definition normalizeResponseStructure :: "jsval \<Rightarrow> jsval" where
  "normalizeResponseStructure data =
     (if data = JNull \<or> data = JUndefined then
        JObj [(''success'', JBool False), (''data'', JNull), (''items'', JArr []),
              (''output'', JStr []), (''text'', JStr []), (''error'', JStr ''No data returned'')]
      else if truthy (js_get data ''_normalized'') then data
      else
        (let result =
               [(''success'', JBool (js_get data ''success'' \<noteq> JBool False
                                      \<and> \<not> truthy (js_get data ''error'')
                                      \<and> \<not> truthy (js_get data ''isError''))),
                (''_normalized'', JBool True),
                (''_raw'', data)];
             mainData = unwrap_main data;
             (result', textContent) = fill_accessors result mainData (extract_text data mainData)
         in JObj (surface_error data (add_aliases result' textContent))))"

subsection \<open>transformMCPResponse\<close>

text \<open>\<^verbatim>\<open>content.filter(c => c.type === 'text')\<close>: the test reads a property of
  every element in turn, and throws at the first that is \<^verbatim>\<open>null\<close> or
  \<^verbatim>\<open>undefined\<close>.\<close>

fun filter_text :: "jsval list \<Rightarrow> js_error + jsval list" where
  "filter_text [] = Inr []"
| "filter_text (c # cs) =
     (if c = JNull \<or> c = JUndefined then Inl (cannot_read c ''type'')
      else case filter_text cs of
             Inl e \<Rightarrow> Inl e
           | Inr r \<Rightarrow> Inr (if js_get c ''type'' = JStr ''text'' then c # r else r))"

text \<open>\<^verbatim>\<open>{...rawResponse, success: true}\<close>.\<close>

definition with_success :: "jsval \<Rightarrow> jsval" where
  "with_success rawResponse = JObj (js_set (object_entries rawResponse) ''success'' (JBool True))"

text \<open>
  \<^verbatim>\<open>transformMCPResponse(rawResponse)\<close>.  \<^verbatim>\<open>JSON.parse\<close> is the runtime's and a
  parameter: it gets the text it would convert its argument to, and \<open>None\<close> is its
  SyntaxError.  Where the parsed value is an array the code sets \<^verbatim>\<open>success\<close> on the
  array object; the sequence model has no place for the extra property (nor has its
  serialisation) and keeps the array as it is.
\<close>

definition transformMCPResponse :: "(string \<Rightarrow> jsval option) \<Rightarrow> jsval \<Rightarrow> js_error + jsval" where
  "transformMCPResponse parse rawResponse =
     (if \<not> truthy rawResponse then Inr rawResponse
      else if truthy (js_get rawResponse ''content'') \<and> isArray (js_get rawResponse ''content'')
      then
        (case js_get rawResponse ''content'' of
           JArr content \<Rightarrow>
             (case filter_text content of
                Inl e \<Rightarrow> Inl e
              | Inr textContents \<Rightarrow>
                  if truthy (js_get rawResponse ''isError'') then
                    (let errorText = array_join [CHR 0x0A] (map (\<lambda>c. js_get c ''text'') textContents)
                     in Inr (JObj [(''success'', JBool False),
                                   (''error'', JStr (if errorText \<noteq> [] then errorText
                                                     else ''MCP tool returned an error'')),
                                   (''_raw'', rawResponse)]))
                  else if length textContents = 0 then
                    Inr (JObj [(''success'', JBool True),
                               (''content'', js_get rawResponse ''content''),
                               (''_raw'', rawResponse)])
                  else if length textContents = 1 then
                    (let textContent = js_get (hd textContents) ''text''
                     in case parse (js_String textContent) of
                          Some parsed \<Rightarrow>
                            (case parsed of
                               JObj kvs \<Rightarrow>
                                 if has_key parsed ''success'' then Inr parsed
                                 else Inr (JObj (js_set kvs ''success'' (JBool True)))
                             | _ \<Rightarrow> Inr parsed)
                        | None \<Rightarrow>
                            Inr (JObj [(''success'', JBool True), (''text'', textContent),
                                       (''_raw'', rawResponse)]))
                  else
                    (let combinedText =
                           map (\<lambda>c. case parse (js_String (js_get c ''text'')) of
                                       Some v \<Rightarrow> v
                                     | None \<Rightarrow> js_get c ''text'') textContents
                     in Inr (JObj [(''success'', JBool True), (''results'', JArr combinedText),
                                   (''_raw'', rawResponse)])))
         | _ \<Rightarrow> Inr rawResponse)
      else if typeof rawResponse = ''object'' \<and> rawResponse \<noteq> JNull
              \<and> \<not> has_key rawResponse ''success''
        then Inr (normalizeResponseStructure (with_success rawResponse))
      else Inr (normalizeResponseStructure rawResponse))"

text \<open>Example responses: an MCP error envelope with one text part, and a flat record.\<close>

definition error_envelope :: jsval where
  "error_envelope =
     JObj [(''content'', JArr [JObj [(''type'', JStr ''text''), (''text'', JStr ''boom'')]]),
           (''isError'', JBool True)]"

definition error_result :: jsval where
  "error_result =
     JObj [(''success'', JBool False), (''error'', JStr ''boom''), (''_raw'', error_envelope)]"

definition flat_record :: jsval where
  "flat_record = JObj [(''markdown'', JStr ''hi'')]"

text \<open>What structure normalization makes of the string \<^verbatim>\<open>"hello"\<close>.\<close>

definition hello_result :: jsval where
  "hello_result =
     JObj [(''success'', JBool True), (''_normalized'', JBool True), (''_raw'', JStr ''hello''),
           (''items'', JArr [JStr ''hello'']), (''data'', JStr ''hello''),
           (''value'', JStr ''hello''), (''length'', JNum 1), (''text'', JStr ''hello''),
           (''output'', JStr ''hello''), (''stdout'', JStr ''hello''),
           (''content'', JStr ''hello'')]"

section \<open>Parameter normalizer\<close>

subsection \<open>Conversions\<close>

text \<open>\<^verbatim>\<open>JSON.parse(JSON.stringify(v))\<close>, the deep clone, modelled on values: the
  round trip drops the properties whose value is \<^verbatim>\<open>undefined\<close> and turns
  \<^verbatim>\<open>undefined\<close> elements into \<^verbatim>\<open>null\<close>.  At top level \<^verbatim>\<open>undefined\<close>
  serialises to \<^verbatim>\<open>undefined\<close>, which does not parse: the clone throws (\<open>None\<close>).\<close>

fun clone_val :: "jsval \<Rightarrow> jsval" where
  "clone_val JUndefined = JNull"
| "clone_val (JArr xs) = JArr (map clone_val xs)"
| "clone_val (JObj kvs) =
     JObj (map (\<lambda>(k, v). (k, clone_val v)) (filter (\<lambda>(k, v). v \<noteq> JUndefined) kvs))"
| "clone_val v = v"

definition json_clone :: "jsval \<Rightarrow> jsval option" where
  "json_clone v = (if v = JUndefined then None else Some (clone_val v))"

text \<open>\<^verbatim>\<open>Number(v)\<close>, with \<open>None\<close> for NaN.  Reading a string as a number is the
  runtime's and a parameter; an array or an object is first converted to a string.\<close>

definition js_Number :: "(string \<Rightarrow> int option) \<Rightarrow> jsval \<Rightarrow> int option" where
  "js_Number str2num v =
     (case v of
        JUndefined \<Rightarrow> None
      | JNull \<Rightarrow> Some 0
      | JBool b \<Rightarrow> Some (if b then 1 else 0)
      | JNum n \<Rightarrow> Some n
      | JStr s \<Rightarrow> str2num s
      | _ \<Rightarrow> str2num (js_String v))"

text \<open>\<^verbatim>\<open>r.includes(key)\<close> for a value \<open>r\<close> that is neither \<^verbatim>\<open>null\<close> nor
  \<^verbatim>\<open>undefined\<close>: membership in an array, containment in a string, and a TypeError for
  anything else, which has no such method.  The message names the expression called.\<close>

definition includes_key :: "string \<Rightarrow> jsval \<Rightarrow> string \<Rightarrow> js_error + bool" where
  "includes_key callee r key =
     (case r of
        JArr xs \<Rightarrow> Inr (JStr key \<in> set xs)
      | JStr s \<Rightarrow> Inr (str_includes s key)
      | _ \<Rightarrow> Inl (TypeError (callee @ '' is not a function'')))"

text \<open>\<^verbatim>\<open>a || b\<close> on property names that may be \<^verbatim>\<open>undefined\<close> (\<open>None\<close>): the empty
  name is falsy too.\<close>

definition name_or :: "string option \<Rightarrow> string option \<Rightarrow> string option" where
  "name_or a b = (case a of Some s \<Rightarrow> if s \<noteq> [] then a else b | None \<Rightarrow> b)"

subsection \<open>Wrapping the items of an array\<close>

text \<open>\<^verbatim>\<open>propNames.filter(p => itemSchema.properties[p].type === 'string')\<close>: reading
  \<^verbatim>\<open>type\<close> throws where a declared property is \<^verbatim>\<open>null\<close> or \<^verbatim>\<open>undefined\<close>.\<close>

fun string_props :: "jsval \<Rightarrow> string list \<Rightarrow> js_error + string list" where
  "string_props props [] = Inr []"
| "string_props props (p # ps) =
     (if js_get props p = JNull \<or> js_get props p = JUndefined
      then Inl (cannot_read (js_get props p) ''type'')
      else case string_props props ps of
             Inl e \<Rightarrow> Inl e
           | Inr r \<Rightarrow> Inr (if js_get (js_get props p) ''type'' = JStr ''string'' then p # r else r))"

text \<open>\<^verbatim>\<open>stringProps.find(p => requiredProps.includes(p))\<close>.\<close>

fun find_required :: "jsval \<Rightarrow> string list \<Rightarrow> js_error + string option" where
  "find_required requiredProps [] = Inr None"
| "find_required requiredProps (p # ps) =
     (case includes_key ''requiredProps.includes'' requiredProps p of
        Inl e \<Rightarrow> Inl e
      | Inr True \<Rightarrow> Inr (Some p)
      | Inr False \<Rightarrow> find_required requiredProps ps)"

text \<open>The callback of \<^verbatim>\<open>items.map(...)\<close>: an item that is not an object is wrapped
  under the property the item schema suggests, or under \<^verbatim>\<open>value\<close>.\<close>

definition wrap_item :: "jsval \<Rightarrow> jsval \<Rightarrow> js_error + jsval" where
  "wrap_item itemSchema item =
     (if typeof item = ''object'' then Inr item
      else if truthy (js_get itemSchema ''properties'') then
        (let props = js_get itemSchema ''properties'';
             propNames = map fst (object_entries props);
             requiredProps = js_or (js_get itemSchema ''required'') (JArr [])
         in case string_props props propNames of
              Inl e \<Rightarrow> Inl e
            | Inr stringProps \<Rightarrow>
                (case find_required requiredProps stringProps of
                   Inl e \<Rightarrow> Inl e
                 | Inr required \<Rightarrow>
                     (let targetProp =
                            name_or required
                           (name_or (find (\<lambda>p. p = ''type'') stringProps)
                           (name_or (find (\<lambda>p. p = ''value'') stringProps)
                           (name_or (find (\<lambda>p. p = ''url'') stringProps)
                           (name_or (find (\<lambda>p. p = ''name'') stringProps)
                           (name_or (if stringProps = [] then None else Some (hd stringProps))
                                    (if propNames = [] then None else Some (hd propNames)))))))
                      in case targetProp of
                           Some t \<Rightarrow> if t \<noteq> [] then Inr (JObj [(t, item)])
                                     else Inr (JObj [(''value'', item)])
                         | None \<Rightarrow> Inr (JObj [(''value'', item)]))))
      else Inr (JObj [(''value'', item)]))"

fun map_items :: "('a \<Rightarrow> js_error + 'b) \<Rightarrow> 'a list \<Rightarrow> js_error + 'b list" where
  "map_items f [] = Inr []"
| "map_items f (x # xs) =
     (case f x of
        Inl e \<Rightarrow> Inl e
      | Inr y \<Rightarrow> (case map_items f xs of Inl e \<Rightarrow> Inl e | Inr ys \<Rightarrow> Inr (y # ys)))"

subsection \<open>Coercing one declared property\<close>

text \<open>\<^verbatim>\<open>normalized[key] = v\<close>; \<^verbatim>\<open>normalized\<close> is a record wherever the loop assigns,
  since the property assigned to has been read as defined.\<close>

definition set_property :: "jsval \<Rightarrow> string \<Rightarrow> jsval \<Rightarrow> jsval" where
  "set_property normalized key v =
     (case normalized of JObj kvs \<Rightarrow> JObj (js_set kvs key v) | _ \<Rightarrow> normalized)"

text \<open>The chain of type coercions of one property, on (normalized, warnings).\<close>

definition coerce_type ::
    "(string \<Rightarrow> int option) \<Rightarrow> string \<Rightarrow> jsval \<Rightarrow> jsval \<Rightarrow> jsval \<times> string list
      \<Rightarrow> jsval \<times> string list" where
  "coerce_type str2num key ptype val st =
     (let (normalized, warnings) = st
      in if ptype = JStr ''array'' \<and> \<not> isArray val then
           (set_property normalized key (JArr [val]), warnings @ [''Coerced '' @ key @ '' to array''])
         else if ptype = JStr ''string'' \<and> typeof val \<noteq> ''string'' then
           (set_property normalized key (JStr (js_String val)),
            warnings @ [''Coerced '' @ key @ '' to string''])
         else if ptype = JStr ''number'' \<and> typeof val \<noteq> ''number'' then
           (case js_Number str2num val of
              Some num \<Rightarrow> (set_property normalized key (JNum num),
                            warnings @ [''Coerced '' @ key @ '' to number''])
            | None \<Rightarrow> (normalized, warnings))
         else if ptype = JStr ''boolean'' \<and> typeof val \<noteq> ''boolean'' then
           (set_property normalized key (JBool (truthy val)),
            warnings @ [''Coerced '' @ key @ '' to boolean''])
         else if ptype = JStr ''object'' \<and> typeof val \<noteq> ''object'' then
           (normalized, warnings @ [''Expected object for '' @ key @ '', got '' @ typeof val])
         else (normalized, warnings))"

text \<open>"Handle array item types": the items of a declared array of objects that are not
  objects are wrapped.\<close>

definition wrap_array_items ::
    "string \<Rightarrow> jsval \<Rightarrow> jsval \<times> string list \<Rightarrow> js_error + jsval \<times> string list" where
  "wrap_array_items key prop st =
     (let (normalized, warnings) = st
      in if js_get prop ''type'' = JStr ''array'' \<and> isArray (js_get normalized key)
            \<and> truthy (js_get prop ''items'')
         then
           (case js_get normalized key of
              JArr items \<Rightarrow>
                (let itemSchema = js_get prop ''items''
                 in if js_get itemSchema ''type'' = JStr ''object'' \<and> length items > 0
                       \<and> typeof (hd items) \<noteq> ''object''
                    then
                      (case map_items (wrap_item itemSchema) items of
                         Inl e \<Rightarrow> Inl e
                       | Inr wrappedItems \<Rightarrow>
                           Inr (set_property normalized key (JArr wrappedItems),
                                warnings @ [''Wrapped '' @ key @ '' items as objects using schema'']))
                    else Inr st)
            | _ \<Rightarrow> Inr st)
         else Inr st)"

text \<open>The body of the loop over the declared properties, for one
  \<^verbatim>\<open>[key, propSchema]\<close>.  \<^verbatim>\<open>schema.required?.includes(key)\<close> is \<^verbatim>\<open>undefined\<close>
  when no \<^verbatim>\<open>required\<close> is declared; \<^verbatim>\<open>prop.type\<close> is read only where the value is
  defined and throws on a \<^verbatim>\<open>null\<close> property schema.\<close>

definition coerce_property ::
    "(string \<Rightarrow> int option) \<Rightarrow> jsval \<Rightarrow> jsval \<times> string list \<Rightarrow> string \<times> jsval
      \<Rightarrow> js_error + jsval \<times> string list" where
  "coerce_property str2num schema st entry =
     (let (normalized, warnings) = st;
          (key, prop) = entry;
          val = js_get normalized key;
          required = js_get schema ''required''
      in case (if required = JUndefined \<or> required = JNull then Inr False
               else includes_key ''schema.required?.includes'' required key) of
           Inl e \<Rightarrow> Inl e
         | Inr is_required \<Rightarrow>
             (let warnings1 = (if is_required \<and> val = JUndefined
                               then warnings @ [''Missing required field: '' @ key] else warnings)
              in if val = JUndefined then Inr (normalized, warnings1)
                 else if prop = JNull \<or> prop = JUndefined then Inl (cannot_read prop ''type'')
                 else if truthy (js_get prop ''type'') then
                   wrap_array_items key prop
                     (coerce_type str2num key (js_get prop ''type'') val (normalized, warnings1))
                 else Inr (normalized, warnings1)))"

fun for_each :: "('s \<Rightarrow> 'a \<Rightarrow> js_error + 's) \<Rightarrow> 'a list \<Rightarrow> 's \<Rightarrow> js_error + 's" where
  "for_each f [] s = Inr s"
| "for_each f (x # xs) s = (case f s x of Inl e \<Rightarrow> Inl e | Inr s' \<Rightarrow> for_each f xs s')"

subsection \<open>normalizeParameters\<close>

record norm_result =
  normalized :: jsval
  warnings :: "string list"
  isValid :: bool

text \<open>"If args is a primitive (string, number, boolean), try to wrap it": the wrapping
  by tool name of a string, and of an array passed directly.\<close>

definition wrap_primitive :: "string \<Rightarrow> jsval \<Rightarrow> jsval \<times> string list \<Rightarrow> jsval \<times> string list" where
  "wrap_primitive toolName args st =
     (let (normalized, warnings) = st
      in if typeof normalized \<noteq> ''object'' \<or> isArray normalized then
           (case normalized of
              JStr s \<Rightarrow>
                if str_includes toolName ''scrape'' \<or> str_includes toolName ''crawl'' then
                  (JObj [(''url'', normalized)],
                   warnings @ [''Wrapped string as { url: '' @ [CHR 0x22] @ s @ [CHR 0x22] @ '' }''])
                else if str_includes toolName ''search'' then
                  (JObj [(''query'', normalized)],
                   warnings @ [''Wrapped string as { query: '' @ [CHR 0x22] @ s @ [CHR 0x22] @ '' }''])
                else if str_includes toolName ''extract'' then
                  (JObj [(''urls'', JArr [normalized])],
                   warnings @ [''Wrapped string as { urls: ['' @ [CHR 0x22] @ s @ [CHR 0x22] @ ''] }''])
                else
                  (JObj [(''input'', args)], warnings @ [''Wrapped primitive as { input: ... }''])
            | _ \<Rightarrow>
                if isArray args then
                  (if str_includes toolName ''extract'' \<or> str_includes toolName ''batch'' then
                     (JObj [(''urls'', args)], warnings @ [''Wrapped array as { urls: [...] }''])
                   else
                     (JObj [(''items'', args)], warnings @ [''Wrapped array as { items: [...] }'']))
                else st)
         else st)"

text \<open>\<^verbatim>\<open>normalizeParameters(toolName, args, schema)\<close>; an absent schema is
  \<^verbatim>\<open>undefined\<close>.\<close>

definition normalizeParameters ::
    "(string \<Rightarrow> int option) \<Rightarrow> string \<Rightarrow> jsval \<Rightarrow> jsval \<Rightarrow> js_error + norm_result" where
  "normalizeParameters str2num toolName args schema =
     (let st0 = (if args = JNull \<or> args = JUndefined
                 then (JObj [], [''Args was null/undefined, using empty object''])
                 else (args, []));
          (wrapped, warnings1) = wrap_primitive toolName args st0;
          st2 = (case json_clone wrapped of
                   Some cloned \<Rightarrow> (cloned, warnings1)
                 | None \<Rightarrow> (wrapped, warnings1 @ [''Failed to clone args, using original'']));
          properties = (if schema = JUndefined \<or> schema = JNull then JUndefined
                        else js_get schema ''properties'')
      in case (if truthy properties
               then for_each (coerce_property str2num schema) (object_entries properties) st2
               else Inr st2) of
           Inl e \<Rightarrow> Inl e
         | Inr (normalized', warnings') \<Rightarrow>
             Inr \<lparr> normalized = normalized', warnings = warnings',
                   isValid = (filter (\<lambda>w. str_includes w ''Missing required'') warnings' = []) \<rparr>)"

section \<open>MCP bridge\<close>

subsection \<open>State\<close>

text \<open>What a call of a tool's \<^verbatim>\<open>execute\<close> does: it returns a value or throws an
  \<^verbatim>\<open>Error\<close> with a message.  A tool may answer differently from call to call, so its
  \<^verbatim>\<open>execute\<close> is a function of the calls made so far and of the arguments.\<close>

datatype outcome = Returns jsval | Throws string

record tool =
  execute :: "((string \<times> jsval) list \<Rightarrow> jsval \<Rightarrow> outcome) option"
  parameters :: jsval
  inputSchema :: jsval

text \<open>\<^verbatim>\<open>MCPToolRequest\<close>, \<^verbatim>\<open>MCPToolResponse\<close> and \<^verbatim>\<open>MCPToolCallRecord\<close>; an absent
  optional field is \<^verbatim>\<open>undefined\<close> or \<open>None\<close>.\<close>

record request =
  req_toolName :: string
  req_args :: jsval
  req_callId :: string

record response =
  resp_callId :: string
  resp_data :: jsval
  resp_error :: "string option"

record tool_call_record =
  rec_toolName :: string
  rec_args :: jsval
  rec_normalizedArgs :: jsval
  rec_result :: jsval
  rec_rawResult :: jsval
  rec_error :: "string option"
  rec_executionTimeMs :: int

text \<open>The fields of \<^verbatim>\<open>MCPToolBridge\<close>.  The last one is not a field of the class: it
  logs the calls of \<^verbatim>\<open>execute\<close>, tool name and arguments, so that "the tool was not
  invoked" can be said.\<close>

record bridge =
  mcpTools :: "string \<rightharpoonup> tool"
  toolSchemas :: "string \<rightharpoonup> jsval"
  learnedOutputSchemas :: "string \<rightharpoonup> jsval"
  toolCallRecords :: "tool_call_record list"
  failedCallSignatures :: "string \<rightharpoonup> nat"
  parameterWarnings :: "string \<rightharpoonup> string list"
  executed :: "(string \<times> jsval) list"

definition MAX_RETRIES :: nat where
  "MAX_RETRIES = 3"

text \<open>The constructor: the tools whose name starts with \<^verbatim>\<open>mcp_\<close>, and the schema
  \<^verbatim>\<open>parameters || inputSchema\<close> of each that has one.\<close>

definition new_bridge :: "(string \<times> tool) list \<Rightarrow> bridge" where
  "new_bridge tools =
     (let mcp = filter (\<lambda>(name, t). prefix ''mcp_'' name) tools
      in \<lparr> mcpTools = map_of mcp,
           toolSchemas =
             map_of (map (\<lambda>(name, t). (name, js_or (parameters t) (inputSchema t)))
                       (filter (\<lambda>(name, t). truthy (parameters t) \<or> truthy (inputSchema t)) mcp)),
           learnedOutputSchemas = Map.empty,
           toolCallRecords = [],
           failedCallSignatures = Map.empty,
           parameterWarnings = Map.empty,
           executed = [] \<rparr>)"

definition reset :: "bridge \<Rightarrow> bridge" where
  "reset b = b\<lparr> toolCallRecords := [], failedCallSignatures := Map.empty,
               parameterWarnings := Map.empty \<rparr>"

subsection \<open>Learning output schemas\<close>

function inferSchema :: "nat \<Rightarrow> jsval \<Rightarrow> jsval" where
  "inferSchema depth v =
     (if depth > 3 then JObj [(''type'', JStr ''any'')]
      else case v of
             JNull \<Rightarrow> JObj [(''type'', JStr ''null'')]
           | JUndefined \<Rightarrow> JObj [(''type'', JStr ''undefined'')]
           | JArr xs \<Rightarrow>
               JObj [(''type'', JStr ''array''),
                     (''itemType'', case xs of
                                       [] \<Rightarrow> JObj [(''type'', JStr ''unknown'')]
                                     | x # rest \<Rightarrow> inferSchema (depth + 1) x),
                     (''length'', JNum (int (length xs)))]
           | JObj kvs \<Rightarrow>
               JObj [(''type'', JStr ''object''),
                     (''properties'',
                      JObj (object_assign []
                              (map (\<lambda>kv. (fst kv, inferSchema (depth + 1) (snd kv)))
                                 (filter (\<lambda>kv. fst kv \<noteq> ''_raw'' \<and> fst kv \<noteq> ''_normalized'') kvs))))]
           | _ \<Rightarrow> JObj [(''type'', JStr (typeof v))])"
  by pat_completeness auto
termination
  by (relation "measure (\<lambda>(depth, v). 4 - depth)") auto

declare inferSchema.simps [simp del]

text \<open>\<^verbatim>\<open>(x || 0)\<close> for the lengths that \<^verbatim>\<open>inferSchema\<close> writes, which are numbers.\<close>

definition num_or_0 :: "jsval \<Rightarrow> int" where
  "num_or_0 v = (case v of JNum n \<Rightarrow> n | _ \<Rightarrow> 0)"

definition isMoreDetailed :: "jsval \<Rightarrow> jsval \<Rightarrow> bool" where
  "isMoreDetailed a b =
     (if \<not> truthy b then True
      else if js_get a ''type'' = JStr ''object'' \<and> js_get b ''type'' = JStr ''object'' then
        length (object_entries (js_or (js_get a ''properties'') (JObj [])))
          > length (object_entries (js_or (js_get b ''properties'') (JObj [])))
      else if js_get a ''type'' = JStr ''array'' \<and> js_get b ''type'' = JStr ''array'' then
        num_or_0 (js_get a ''length'') > num_or_0 (js_get b ''length'')
      else False)"

definition learnOutputSchema :: "bridge \<Rightarrow> string \<Rightarrow> jsval \<Rightarrow> bridge" where
  "learnOutputSchema b toolName resp =
     (if \<not> truthy resp \<or> js_get resp ''success'' = JBool False \<or> truthy (js_get resp ''error'')
      then b
      else
        (let schema = inferSchema 0 resp
         in case learnedOutputSchemas b toolName of
              None \<Rightarrow> b\<lparr>learnedOutputSchemas := (learnedOutputSchemas b)(toolName \<mapsto> schema)\<rparr>
            | Some existing \<Rightarrow>
                if \<not> truthy existing \<or> isMoreDetailed schema existing
                then b\<lparr>learnedOutputSchemas := (learnedOutputSchemas b)(toolName \<mapsto> schema)\<rparr>
                else b))"

subsection \<open>handleRequest\<close>

text \<open>\<^verbatim>\<open>getCallSignature\<close>: the tool name, a colon and the serialised arguments.  The
  fallback on the clock is for arguments that \<^verbatim>\<open>JSON.stringify\<close> throws on (cyclic
  ones), which the value model does not have.\<close>

definition getCallSignature :: "string \<Rightarrow> jsval \<Rightarrow> string" where
  "getCallSignature toolName args =
     toolName @ '':'' @ (case JSON_stringify args of Some s \<Rightarrow> s | None \<Rightarrow> ''undefined'')"

text \<open>\<^verbatim>\<open>failedCallSignatures.get(sig) || 0\<close>.\<close>

definition failCount :: "bridge \<Rightarrow> string \<Rightarrow> nat" where
  "failCount b sig = (case failedCallSignatures b sig of Some n \<Rightarrow> n | None \<Rightarrow> 0)"

text \<open>The \<^verbatim>\<open>catch\<close> block: the record takes the error and is appended, the failure
  count of the signature goes up by one, and the response carries the message, with the
  arguments appended for a validation error.\<close>

definition request_failed ::
    "int \<Rightarrow> bridge \<Rightarrow> request \<Rightarrow> jsval \<Rightarrow> string \<Rightarrow> nat \<Rightarrow> string \<Rightarrow> response \<times> bridge" where
  "request_failed elapsedMs b req normalizedArgs callSignature count errorMsg =
     (let record = \<lparr> rec_toolName = req_toolName req, rec_args = req_args req,
                     rec_normalizedArgs = normalizedArgs, rec_result = JUndefined,
                     rec_rawResult = JUndefined, rec_error = Some errorMsg,
                     rec_executionTimeMs = elapsedMs \<rparr>;
          b' = b\<lparr> toolCallRecords := toolCallRecords b @ [record],
                  failedCallSignatures := (failedCallSignatures b)(callSignature \<mapsto> count + 1) \<rparr>;
          enhancedError =
            (if str_includes errorMsg ''validation failed'' \<or> str_includes errorMsg ''Invalid input''
             then errorMsg @ ''. Original args: ''
                  @ (case JSON_stringify (req_args req) of Some s \<Rightarrow> s | None \<Rightarrow> ''undefined'')
                  @ '', Normalized: ''
                  @ (case JSON_stringify normalizedArgs of Some s \<Rightarrow> s | None \<Rightarrow> ''undefined'')
             else errorMsg)
      in (\<lparr> resp_callId = req_callId req, resp_data = JUndefined, resp_error = Some enhancedError \<rparr>,
          b'))"

text \<open>The \<^verbatim>\<open>try\<close> block up to the transformed result: it throws (\<open>Inl\<close>, with the
  message) for an unknown tool, for a tool without \<^verbatim>\<open>execute\<close>, when \<^verbatim>\<open>execute\<close>
  throws and when \<^verbatim>\<open>transformMCPResponse\<close> throws; otherwise it gives the raw and the
  transformed result.  The call of \<^verbatim>\<open>execute\<close> is logged.\<close>

definition try_execute ::
    "(string \<Rightarrow> jsval option) \<Rightarrow> bridge \<Rightarrow> request \<Rightarrow> jsval
      \<Rightarrow> (string + jsval \<times> jsval) \<times> bridge" where
  "try_execute parse b req normalizedArgs =
     (case mcpTools b (req_toolName req) of
        None \<Rightarrow> (Inl (''Unknown MCP tool: '' @ req_toolName req), b)
      | Some t \<Rightarrow>
          (case execute t of
             None \<Rightarrow> (Inl (''MCP tool '' @ req_toolName req @ '' has no execute function''), b)
           | Some exec \<Rightarrow>
               (let b' = b\<lparr>executed := executed b @ [(req_toolName req, normalizedArgs)]\<rparr>
                in case exec (executed b) normalizedArgs of
                     Throws msg \<Rightarrow> (Inl msg, b')
                   | Returns rawResult \<Rightarrow>
                       (case transformMCPResponse parse rawResult of
                          Inl e \<Rightarrow> (Inl (error_message e), b')
                        | Inr transformedResult \<Rightarrow> (Inr (rawResult, transformedResult), b')))))"

text \<open>The rest of the \<^verbatim>\<open>try\<close> block: the record is completed and appended, the
  failure count of the signature is deleted, the output schema is learned.\<close>

definition request_succeeded ::
    "int \<Rightarrow> bridge \<Rightarrow> request \<Rightarrow> jsval \<Rightarrow> string \<Rightarrow> jsval \<Rightarrow> jsval \<Rightarrow> response \<times> bridge" where
  "request_succeeded elapsedMs b req normalizedArgs callSignature rawResult transformedResult =
     (let record = \<lparr> rec_toolName = req_toolName req, rec_args = req_args req,
                     rec_normalizedArgs = normalizedArgs, rec_result = transformedResult,
                     rec_rawResult = rawResult, rec_error = None,
                     rec_executionTimeMs = elapsedMs \<rparr>;
          b' = b\<lparr> toolCallRecords := toolCallRecords b @ [record],
                  failedCallSignatures := (failedCallSignatures b)(callSignature := None) \<rparr>
      in (\<lparr> resp_callId = req_callId req, resp_data = transformedResult, resp_error = None \<rparr>,
          learnOutputSchema b' (req_toolName req) transformedResult))"

text \<open>
  \<^verbatim>\<open>handleRequest(request)\<close>, run to completion on its own.  The parameters are the
  runtime's \<^verbatim>\<open>JSON.parse\<close> and string-to-number conversion and the milliseconds the
  clock advances during the call.  A throw of \<^verbatim>\<open>normalizeParameters\<close>, which is
  called outside the \<^verbatim>\<open>try\<close>, is a throw of \<^verbatim>\<open>handleRequest\<close> (\<open>Inl\<close>).
\<close>

definition handleRequest ::
    "(string \<Rightarrow> jsval option) \<Rightarrow> (string \<Rightarrow> int option) \<Rightarrow> int \<Rightarrow> bridge \<Rightarrow> request
      \<Rightarrow> (js_error + response) \<times> bridge" where
  "handleRequest parse str2num elapsedMs b req =
     (let schema = (case toolSchemas b (req_toolName req) of Some s \<Rightarrow> s | None \<Rightarrow> JUndefined)
      in case normalizeParameters str2num (req_toolName req) (req_args req) schema of
           Inl e \<Rightarrow> (Inl e, b)
         | Inr n \<Rightarrow>
             (let b1 = (if warnings n \<noteq> []
                        then b\<lparr>parameterWarnings :=
                                 (parameterWarnings b)(req_toolName req \<mapsto> warnings n)\<rparr>
                        else b);
                  callSignature = getCallSignature (req_toolName req) (normalized n);
                  count = failCount b1 callSignature
              in if count \<ge> MAX_RETRIES then
                   (Inr \<lparr> resp_callId = req_callId req, resp_data = JUndefined,
                          resp_error = Some (''Tool '' @ req_toolName req @ '' failed ''
                            @ show_nat count
                            @ '' times with same parameters. Check parameter format.'') \<rparr>,
                    b1)
                 else
                   (case try_execute parse b1 req (normalized n) of
                      (Inl errorMsg, b2) \<Rightarrow>
                        map_prod Inr id
                          (request_failed elapsedMs b2 req (normalized n) callSignature count errorMsg)
                    | (Inr (rawResult, transformedResult), b2) \<Rightarrow>
                        map_prod Inr id
                          (request_succeeded elapsedMs b2 req (normalized n) callSignature
                             rawResult transformedResult))))"

text \<open>The signature under which the bridge counts the failures of a request, where the
  normalization of its arguments does not throw.\<close>

definition request_signature :: "(string \<Rightarrow> int option) \<Rightarrow> bridge \<Rightarrow> request \<Rightarrow> string option" where
  "request_signature str2num b req =
     (case normalizeParameters str2num (req_toolName req) (req_args req)
             (case toolSchemas b (req_toolName req) of Some s \<Rightarrow> s | None \<Rightarrow> JUndefined) of
        Inl e \<Rightarrow> None
      | Inr n \<Rightarrow> Some (getCallSignature (req_toolName req) (normalized n)))"

text \<open>Whether a response is an error response, and the response of a call that returned
  one.\<close>

definition failed :: "(js_error + response) \<times> bridge \<Rightarrow> bool" where
  "failed res = (case fst res of Inl e \<Rightarrow> False | Inr r \<Rightarrow> resp_error r \<noteq> None)"

text \<open>An example bridge: one tool, \<^verbatim>\<open>mcp_flaky\<close>, whose every call throws.\<close>

definition flaky_tool :: tool where
  "flaky_tool = \<lparr> execute = Some (\<lambda>calls args. Throws ''upstream unavailable''),
                   parameters = JUndefined, inputSchema = JUndefined \<rparr>"

definition flaky_bridge :: bridge where
  "flaky_bridge = new_bridge [(''mcp_flaky'', flaky_tool)]"

definition flaky_request :: "string \<Rightarrow> request" where
  "flaky_request callId =
     \<lparr> req_toolName = ''mcp_flaky'', req_args = JObj [(''x'', JNum 1)], req_callId = callId \<rparr>"

text \<open>The same bridge after three failures of \<^verbatim>\<open>mcp_flaky({})\<close>, and a call of the
  tool without arguments.\<close>

definition tripped_bridge :: bridge where
  "tripped_bridge = flaky_bridge\<lparr>failedCallSignatures := [''mcp_flaky:{}'' \<mapsto> 3]\<rparr>"

definition null_request :: request where
  "null_request = \<lparr> req_toolName = ''mcp_flaky'', req_args = JNull, req_callId = ''c4'' \<rparr>"

text \<open>A runtime whose string-to-number conversion knows no number stands in for the real
  one in the worked examples, none of which converts a string.\<close>

definition no_number :: "string \<Rightarrow> int option" where
  "no_number s = None"

text \<open>A bridge with one tool, \<^verbatim>\<open>mcp_steady\<close>, whose every call returns the string
  \<^verbatim>\<open>"ok"\<close>.\<close>

definition steady_tool :: tool where
  "steady_tool = \<lparr> execute = Some (\<lambda>calls args. Returns (JStr ''ok'')),
                    parameters = JUndefined, inputSchema = JUndefined \<rparr>"

definition steady_bridge :: bridge where
  "steady_bridge = new_bridge [(''mcp_steady'', steady_tool)]"

definition steady_request :: request where
  "steady_request =
     \<lparr> req_toolName = ''mcp_steady'', req_args = JObj [(''x'', JNum 1)], req_callId = ''s1'' \<rparr>"

section \<open>Response files\<close>

subsection \<open>The commands the host issues\<close>

text \<open>\<^verbatim>\<open>s.replace(pattern, replacement)\<close> with a string pattern: the first occurrence
  is replaced.\<close>

fun replace_first :: "string \<Rightarrow> string \<Rightarrow> string \<Rightarrow> string" where
  "replace_first [] pat rep = (if pat = [] then rep else [])"
| "replace_first (c # cs) pat rep =
     (if prefix pat (c # cs) then rep @ drop (length pat) (c # cs)
      else c # replace_first cs pat rep)"

definition local_result_path :: "string \<Rightarrow> string" where
  "local_result_path filePath = replace_first filePath ''tool_call_'' ''tool_result_''"

definition mcp_result_path :: "string \<Rightarrow> string" where
  "mcp_result_path filePath = replace_first filePath ''mcp_call_'' ''mcp_result_''"

text \<open>The success branch: \<^verbatim>\<open>resultJson = JSON.stringify({ data: result })\<close> goes into
  a here-document,
  \<^verbatim>\<open>cat > ${resultPath} << 'RESULT_EOF'\n${resultJson}\nRESULT_EOF\<close>.\<close>

definition data_response_command :: "string \<Rightarrow> jsval \<Rightarrow> string" where
  "data_response_command resultPath result =
     ''cat > '' @ resultPath @ '' << '' @ [CHR 0x27] @ ''RESULT_EOF'' @ [CHR 0x27] @ [CHR 0x0A]
       @ stringify_val (JObj [(''data'', result)]) @ [CHR 0x0A] @ ''RESULT_EOF''"

text \<open>The error branches:
  \<^verbatim>\<open>echo '${JSON.stringify({ error: error.message })}' > ${resultPath}\<close>.\<close>

definition error_response_command :: "string \<Rightarrow> string \<Rightarrow> string" where
  "error_response_command resultPath errorMessage =
     ''echo '' @ [CHR 0x27] @ stringify_val (JObj [(''error'', JStr errorMessage)]) @ [CHR 0x27]
       @ '' > '' @ resultPath"

text \<open>What \<^verbatim>\<open>processLocalToolCall\<close> of the compiled sandbox
  (\<^verbatim>\<open>src/unnamed/part_005\<close>) runs once the tool has returned or thrown, and what
  \<^verbatim>\<open>processMCPToolCall\<close> runs on the outcome of the bridge's \<^verbatim>\<open>handleRequest\<close>
  (an error response with an empty message is falsy and takes the data branch).\<close>

definition local_response_command :: "string \<Rightarrow> outcome \<Rightarrow> string" where
  "local_response_command filePath out =
     (case out of
        Returns result \<Rightarrow> data_response_command (local_result_path filePath) result
      | Throws msg \<Rightarrow> error_response_command (local_result_path filePath) msg)"

definition mcp_response_command :: "string \<Rightarrow> js_error + response \<Rightarrow> string" where
  "mcp_response_command filePath res =
     (case res of
        Inl e \<Rightarrow> error_response_command (mcp_result_path filePath) (error_message e)
      | Inr r \<Rightarrow>
          (case resp_error r of
             Some msg \<Rightarrow>
               if msg \<noteq> [] then error_response_command (mcp_result_path filePath) msg
               else data_response_command (mcp_result_path filePath) (resp_data r)
           | None \<Rightarrow> data_response_command (mcp_result_path filePath) (resp_data r)))"

text \<open>The monitor of \<^verbatim>\<open>src/lib/sandbox.ts\<close> serves local tools only and writes both
  envelopes with \<^verbatim>\<open>echo\<close>; its success branch runs
  \<^verbatim>\<open>echo '${JSON.stringify({ data: result })}' > ${resultPath}\<close>.\<close>

definition echo_data_response_command :: "string \<Rightarrow> jsval \<Rightarrow> string" where
  "echo_data_response_command resultPath result =
     ''echo '' @ [CHR 0x27] @ stringify_val (JObj [(''data'', result)]) @ [CHR 0x27]
       @ '' > '' @ resultPath"

definition monitor_response_command :: "string \<Rightarrow> outcome \<Rightarrow> string" where
  "monitor_response_command filePath out =
     (case out of
        Returns result \<Rightarrow> echo_data_response_command (local_result_path filePath) result
      | Throws msg \<Rightarrow> error_response_command (local_result_path filePath) msg)"

subsection \<open>The sandbox's shell\<close>

text \<open>
  The commands run under \<^verbatim>\<open>bash -c\<close> in the sandbox, which is not part of the
  repository.  Of the shell language the two commands use words, single quotes, an
  output redirection and a here-document with a quoted delimiter; this much of it is
  modelled.  A script that needs more (expansions, operators, unquoted characters with a
  meaning of their own) is \<open>Outside\<close>, about which the model says nothing; a quote that
  is not closed is the shell's syntax error, and then nothing runs.
\<close>

datatype 'a shell = Ok 'a | Syntax_error | Outside

datatype mode = Plain | Single | Double

datatype token = Word bool string | Redirect_out | Here_doc

definition plain_char :: "char \<Rightarrow> bool" where
  "plain_char c =
     (c \<in> set ''abcdefghijklmnopqrstuvwxyzABCDEFGHIJKLMNOPQRSTUVWXYZ0123456789_./-'')"

text \<open>The word being read, if any: whether a part of it was quoted, and its text.\<close>

definition add_char :: "char \<Rightarrow> (bool \<times> string) option \<Rightarrow> (bool \<times> string) option" where
  "add_char c cur = (case cur of None \<Rightarrow> Some (False, [c]) | Some (q, w) \<Rightarrow> Some (q, w @ [c]))"

definition open_quote :: "(bool \<times> string) option \<Rightarrow> (bool \<times> string) option" where
  "open_quote cur = (case cur of None \<Rightarrow> Some (True, []) | Some (q, w) \<Rightarrow> Some (True, w))"

definition push_word :: "(bool \<times> string) option \<Rightarrow> token list \<Rightarrow> token list" where
  "push_word cur acc = (case cur of None \<Rightarrow> acc | Some (q, w) \<Rightarrow> Word q w # acc)"

text \<open>The tokens of one line.  Between single quotes every character stands for itself;
  between double quotes all but the dollar sign, the backquote and the backslash do.\<close>

fun lex :: "mode \<Rightarrow> (bool \<times> string) option \<Rightarrow> token list \<Rightarrow> string \<Rightarrow> token list shell" where
  "lex Plain cur acc [] = Ok (rev (push_word cur acc))"
| "lex Single cur acc [] = Syntax_error"
| "lex Double cur acc [] = Syntax_error"
| "lex Single cur acc (c # cs) =
     (if c = CHR 0x27 then lex Plain cur acc cs else lex Single (add_char c cur) acc cs)"
| "lex Double cur acc (c # cs) =
     (if c = CHR 0x22 then lex Plain cur acc cs
      else if c = CHR ''$'' \<or> c = CHR 0x60 \<or> c = CHR 0x5C then Outside
      else lex Double (add_char c cur) acc cs)"
| "lex Plain cur acc (c # cs) =
     (if c = CHR '' '' \<or> c = CHR 0x09 then lex Plain None (push_word cur acc) cs
      else if c = CHR 0x27 then lex Single (open_quote cur) acc cs
      else if c = CHR 0x22 then lex Double (open_quote cur) acc cs
      else if c = CHR ''>'' then
        (if cur \<noteq> None \<or> \<not> (case cs of [] \<Rightarrow> False | d # rest \<Rightarrow> d = CHR '' '')
         then Outside else lex Plain None (Redirect_out # acc) cs)
      else if c = CHR ''<'' then
        (case cs of
           d # rest \<Rightarrow>
             if d = CHR ''<'' \<and> cur = None \<and> (case rest of [] \<Rightarrow> False | e # rest' \<Rightarrow> e = CHR '' '')
             then lex Plain None (Here_doc # acc) rest else Outside
         | [] \<Rightarrow> Outside)
      else if plain_char c then lex Plain (add_char c cur) acc cs
      else Outside)"

fun split_lines :: "string \<Rightarrow> string list" where
  "split_lines [] = [[]]"
| "split_lines (c # cs) =
     (if c = CHR 0x0A then [] # split_lines cs
      else case split_lines cs of l # ls \<Rightarrow> (c # l) # ls | [] \<Rightarrow> [[c]])"

text \<open>The arguments of \<^verbatim>\<open>echo\<close> and the file its output is redirected to.\<close>

fun echo_args :: "token list \<Rightarrow> (string list \<times> string) option" where
  "echo_args [Redirect_out, Word q p] = Some ([], p)"
| "echo_args (Word q w # ts) =
     (case echo_args ts of Some (ws, p) \<Rightarrow> Some (w # ws, p) | None \<Rightarrow> None)"
| "echo_args ts = None"

text \<open>
  The file a script writes and what it writes into it.  \<^verbatim>\<open>cat > p << 'D'\<close> followed
  by lines and a last line \<open>D\<close> writes the lines in between, each with its newline;
  \<^verbatim>\<open>echo w1 ... wn > p\<close> on a single line writes the words, separated by blanks, and a
  newline (words that start with a dash may be options and are \<open>Outside\<close>).
\<close>

definition run_script :: "string \<Rightarrow> (string \<times> string) shell" where
  "run_script script =
     (case split_lines script of
        [] \<Rightarrow> Outside
      | first # rest \<Rightarrow>
          (case lex Plain None [] first of
             Syntax_error \<Rightarrow> if rest = [] then Syntax_error else Outside
           | Outside \<Rightarrow> Outside
           | Ok tokens \<Rightarrow>
               (case tokens of
                  [Word qc cmd, Redirect_out, Word qp p, Here_doc, Word qd delim] \<Rightarrow>
                    if cmd = ''cat'' \<and> qd \<and> drop (length (takeWhile (\<lambda>l. l \<noteq> delim) rest)) rest = [delim]
                    then Ok (p, concat (map (\<lambda>l. l @ [CHR 0x0A]) (takeWhile (\<lambda>l. l \<noteq> delim) rest)))
                    else Outside
                | Word qc cmd # args \<Rightarrow>
                    if cmd = ''echo'' \<and> rest = [] then
                      (case echo_args args of
                         Some (ws, p) \<Rightarrow>
                           if list_ex (\<lambda>w. prefix ''-'' w) ws then Outside
                           else Ok (p, join '' '' ws @ [CHR 0x0A])
                       | None \<Rightarrow> Outside)
                    else Outside
                | _ \<Rightarrow> Outside)))"

section \<open>Requests and responses through the sandbox's files\<close>

subsection \<open>State\<close>

text \<open>
  The sandbox's \<^verbatim>\<open>/tmp\<close>, as far as the protocol uses it.  The request files
  \<^verbatim>\<open>/tmp/tool_call_*.json\<close> and \<^verbatim>\<open>/tmp/mcp_call_*.json\<close> are kept apart, each
  by its path: a request file holds the serialisation of the stub's object, and the
  model keeps what the host's \<^verbatim>\<open>JSON.parse\<close> reads back from it, the tool name with
  the JSON clone of the arguments, for an MCP request also the call identifier.  The
  result files hold text.  The order of a directory listing is that of the model's list;
  no property proved of the model depends on it.
\<close>

type_synonym 'a files = "(string \<times> 'a) list"


definition unlink :: "string \<Rightarrow> 'a files \<Rightarrow> 'a files" where
  "unlink p fs = filter (\<lambda>e. fst e \<noteq> p) fs"

text \<open>Where a stub stands in \<^verbatim>\<open>__executeLocalTool\<close> or \<^verbatim>\<open>__executeMCPTool\<close>: in the
  polling loop, past \<^verbatim>\<open>readFile\<close> with the text it read, or past the first
  \<^verbatim>\<open>unlink\<close> as well.\<close>

datatype stub_phase = Polling | Has_read string | Unlinked_call string

record stub =
  callFile :: string
  resultFile :: string
  phase :: stub_phase

text \<open>Where the monitor stands in \<^verbatim>\<open>monitorToolCalls\<close>: in the pause between two
  rounds; in the loop over the listed local request files; inside
  \<^verbatim>\<open>processLocalToolCall\<close> for a path, the tool called and its outcome pending, with the
  index of the call record; in the loop over the listed MCP request files; inside
  \<^verbatim>\<open>processMCPToolCall\<close> with \<^verbatim>\<open>handleRequest\<close> pending on a request.\<close>

datatype monitor_state =
    Sleeping
  | Local_files "string list"
  | Local_call string nat outcome "string list"
  | Mcp_files "string list"
  | Mcp_call string nat request "string list"

text \<open>
  The host's \<^verbatim>\<open>toolCalls\<close> and \<^verbatim>\<open>mcpBridge\<close>, the files, the monitor and the
  stubs that are waiting, with four logs that the code does not keep: the request files
  the stubs have written (\<open>issued\<close>), the paths of every listing (\<open>listed\<close>), the
  request file of every call record pushed, which is when the tool or the bridge is called
  (\<open>serviced\<close>), and the request file of every response command run (\<open>responded\<close>);
  on the worker's side the result files read with their text (\<open>consumed\<close>) and the
  calls given up (\<open>timedOut\<close>).
\<close>

record sandbox =
  sandbox_toolCalls :: "tool_call list"
  mcpBridge :: "bridge option"
  toolCallFiles :: "(string \<times> jsval) files"
  mcpCallFiles :: "request files"
  resultFiles :: "string files"
  monitor :: monitor_state
  waiting :: "stub list"
  issued :: "string list"
  listed :: "string list"
  serviced :: "string list"
  responded :: "string list"
  consumed :: "(string \<times> string) list"
  timedOut :: "string list"



subsection \<open>The stubs\<close>






subsection \<open>The monitor\<close>







subsection \<open>Runs\<close>







subsection \<open>An example\<close>











section \<open>Printing numerals\<close>

lemma show_nat_numeral [simp]:
  "show_nat 0 = [digit_char 0]"
  "show_nat (Suc 0) = [digit_char 1]"
  "show_nat (numeral k) =
     (if (numeral k :: nat) < 10 then [digit_char (numeral k)]
      else show_nat (numeral k div 10) @ [digit_char (numeral k mod 10)])"
  by (subst show_nat.simps, simp)+

section \<open>Properties of the savings accountant\<close>

lemma result_tokens_nonneg: "0 \<le> result_tokens r"
  unfolding result_tokens_def by simp

lemma resultSizes_nonneg: "x \<in> set (resultSizes toolCalls) \<Longrightarrow> 0 \<le> x"
  unfolding resultSizes_def by (auto simp: result_tokens_nonneg)

lemma size_or_50_nonneg: "(\<And>x. x \<in> set sizes \<Longrightarrow> 0 \<le> x) \<Longrightarrow> 0 \<le> size_or_50 sizes j"
  unfolding size_or_50_def by auto

lemma roundTrip_loop_nonneg:
  "0 \<le> base \<Longrightarrow> (\<And>x. x \<in> set sizes \<Longrightarrow> 0 \<le> x) \<Longrightarrow> 0 \<le> fst st \<Longrightarrow> 0 \<le> snd st
   \<Longrightarrow> 0 \<le> snd (roundTrip_loop sizes base numCalls i st)"
proof (induction sizes base numCalls i st rule: roundTrip_loop.induct)
  case (1 sizes base numCalls i acc rt)
  show ?case
  proof (cases "i < numCalls")
    case True
    have s: "0 \<le> size_or_50 sizes (i - 1)" using 1(3) by (rule size_or_50_nonneg)
    have "0 \<le> snd (roundTrip_loop sizes base numCalls (i + 1)
        (acc + size_or_50 sizes (i - 1), rt + (base + (acc + size_or_50 sizes (i - 1)))))"
      using 1(1)[OF True refl 1(2) 1(3)] s 1(4) 1(5) 1(2) by simp
    then show ?thesis using True by (subst roundTrip_loop.simps) (simp add: Let_def)
  next
    case False
    then show ?thesis using 1(5) by (subst roundTrip_loop.simps) simp
  qed
qed

text \<open>
  Claim C7.  For every tool-call list and every non-negative base-context estimate (the
  default is 7000), the four categories the accountant returns are non-negative and add
  up to the reported total, in the accountant's result and in the metadata built from it;
  with at most one tool call all four and the total are zero and the breakdown reads
  "No savings (single tool call)".
\<close>

theorem savings_breakdown_sound:
  assumes "0 \<le> baseContextTokens"
  shows "(let s = getComprehensiveTokenSavings toLocaleString toolCalls baseContextTokens;
              m = savings_metadata_of s
          in 0 \<le> intermediateResultTokens s \<and> 0 \<le> roundTripContextTokens s
           \<and> 0 \<le> toolCallOverheadTokens s \<and> 0 \<le> llmDecisionTokens s
           \<and> intermediateResultTokens s + roundTripContextTokens s
               + toolCallOverheadTokens s + llmDecisionTokens s = totalSaved s
           \<and> 0 \<le> intermediateResults m \<and> 0 \<le> roundTripContext m
           \<and> 0 \<le> toolCallOverhead m \<and> 0 \<le> llmDecisions m
           \<and> intermediateResults m + roundTripContext m + toolCallOverhead m + llmDecisions m
               = totalTokensSaved m
           \<and> (length toolCalls \<le> 1 \<longrightarrow>
                intermediateResultTokens s = 0 \<and> roundTripContextTokens s = 0
              \<and> toolCallOverheadTokens s = 0 \<and> llmDecisionTokens s = 0 \<and> totalSaved s = 0
              \<and> breakdown s = ''No savings (single tool call)''
              \<and> totalTokensSaved m = 0
              \<and> savingsExplanation m = ''No savings (single tool call)''))"
proof (cases "length toolCalls \<le> 1")
  case True
  then show ?thesis
    by (simp add: getComprehensiveTokenSavings_def savings_metadata_of_def Let_def)
next
  case False
  have i: "0 \<le> sum_list (resultSizes toolCalls)"
    by (rule sum_list_nonneg) (rule resultSizes_nonneg)
  have r: "0 \<le> snd (roundTrip_loop (resultSizes toolCalls) baseContextTokens (length toolCalls) 1 (0, 0))"
    by (rule roundTrip_loop_nonneg[OF assms]) (auto intro: resultSizes_nonneg)
  have d: "0 \<le> (int (length toolCalls) - 1) * 80" using False by simp
  show ?thesis using False i r d
    by (simp add: getComprehensiveTokenSavings_def savings_metadata_of_def Let_def)
qed

theorem savings_breakdown_sound_witness:
  "(0::int) \<le> 7000 \<and> length one_call \<le> 1
   \<and> totalSaved (getComprehensiveTokenSavings show_int one_call 7000) = 0
   \<and> breakdown (getComprehensiveTokenSavings show_int one_call 7000)
       = ''No savings (single tool call)''
   \<and> intermediateResults (savings_metadata_of (getComprehensiveTokenSavings show_int one_call 7000))
      + roundTripContext (savings_metadata_of (getComprehensiveTokenSavings show_int one_call 7000))
      + toolCallOverhead (savings_metadata_of (getComprehensiveTokenSavings show_int one_call 7000))
      + llmDecisions (savings_metadata_of (getComprehensiveTokenSavings show_int one_call 7000))
      = totalTokensSaved (savings_metadata_of (getComprehensiveTokenSavings show_int one_call 7000))"
  using savings_breakdown_sound[of 7000 show_int one_call]
  by (simp add: Let_def one_call_def)

section \<open>Properties of the context filter\<close>

text \<open>Whether \<^verbatim>\<open>addMessage\<close> keeps a message.\<close>

lemma addMessage_history:
  "messageHistory (addMessage parse cm m flag) =
     messageHistory cm @
       (if flag \<or> msg_role m = User \<or> msg_role m = Assistant
           \<or> (msg_role m = Tool \<and> isCodeExecution parse (msg_content m))
        then [m] else [])"
  by (simp add: addMessage_def)

lemma addMessages_history:
  "messageHistory (addMessages parse cm M) =
     messageHistory cm @
       map fst (filter (\<lambda>(m, flag). flag \<or> msg_role m = User \<or> msg_role m = Assistant
                          \<or> (msg_role m = Tool \<and> isCodeExecution parse (msg_content m))) M)"
proof (induction M arbitrary: cm)
  case Nil
  show ?case by simp
next
  case (Cons p M)
  obtain m flag where p: "p = (m, flag)" by (cases p)
  show ?case unfolding p by (simp add: Cons.IH addMessage_history)
qed

lemma subseq_map_fst_filter: "subseq (map fst (filter P M)) (map fst M)"
  by (induction M) auto

lemma isCodeExecution_iff:
  "isCodeExecution parse c =
     (case c of
        Text s \<Rightarrow> (\<exists>v. parse s = Some v \<and> v \<noteq> JNull \<and> js_get v ''toolName'' = JStr ''code_execution'')
      | Parts ps \<Rightarrow> (\<exists>part \<in> set ps. js_get (JObj part) ''type'' = JStr ''tool-result''
                       \<and> js_get (JObj part) ''toolName'' = JStr ''code_execution''))"
  by (auto simp: isCodeExecution_def isCodeExecutionPart_def list_ex_iff
           split: content.splits option.splits)

text \<open>
  Claim C6, as amended.  For every message stream \<open>M\<close> fed to a fresh context manager,
  the retained history is a subsequence of \<open>M\<close>, and every retained message was added
  with the \<^verbatim>\<open>isCodeExecutionResult\<close> option set, or is a user or assistant message,
  or is a tool message that names \<^verbatim>\<open>code_execution\<close>: one of its parts is a
  tool-result part of that tool, or its string content parses to a value whose
  \<^verbatim>\<open>toolName\<close> is \<^verbatim>\<open>code_execution\<close>.
\<close>

theorem context_filter_retained:
  "subseq (getMessages (addMessages parse new_context_manager M)) (map fst M)
   \<and> (\<forall>m \<in> set (getMessages (addMessages parse new_context_manager M)).
        \<exists>flag. (m, flag) \<in> set M
          \<and> (flag \<or> msg_role m = User \<or> msg_role m = Assistant
             \<or> (msg_role m = Tool
                \<and> (case msg_content m of
                      Text s \<Rightarrow> (\<exists>v. parse s = Some v \<and> v \<noteq> JNull
                                  \<and> js_get v ''toolName'' = JStr ''code_execution'')
                    | Parts ps \<Rightarrow> (\<exists>part \<in> set ps.
                          js_get (JObj part) ''type'' = JStr ''tool-result''
                        \<and> js_get (JObj part) ''toolName'' = JStr ''code_execution'')))))"
proof -
  let ?keep = "\<lambda>(m, flag). flag \<or> msg_role m = User \<or> msg_role m = Assistant
                  \<or> (msg_role m = Tool \<and> isCodeExecution parse (msg_content m))"
  have h: "getMessages (addMessages parse new_context_manager M) = map fst (filter ?keep M)"
    by (simp add: getMessages_def addMessages_history new_context_manager_def)
  have 1: "subseq (map fst (filter ?keep M)) (map fst M)"
    by (rule subseq_map_fst_filter)
  have 2: "\<exists>flag. (m, flag) \<in> set M
          \<and> (flag \<or> msg_role m = User \<or> msg_role m = Assistant
             \<or> (msg_role m = Tool
                \<and> (case msg_content m of
                      Text s \<Rightarrow> (\<exists>v. parse s = Some v \<and> v \<noteq> JNull
                                  \<and> js_get v ''toolName'' = JStr ''code_execution'')
                    | Parts ps \<Rightarrow> (\<exists>part \<in> set ps.
                          js_get (JObj part) ''type'' = JStr ''tool-result''
                        \<and> js_get (JObj part) ''toolName'' = JStr ''code_execution''))))"
    if "m \<in> set (map fst (filter ?keep M))" for m
  proof -
    from that obtain flag where in_M: "(m, flag) \<in> set M" and k: "?keep (m, flag)"
      by auto
    from k show ?thesis
      using in_M unfolding isCodeExecution_iff by blast
  qed
  show ?thesis unfolding h using 1 2 by blast
qed

text \<open>The scenario of the specification: of user, assistant, a tool result of
  \<^verbatim>\<open>getUser\<close>, a tool result of \<^verbatim>\<open>code_execution\<close> and assistant, all but the
  third are retained.\<close>

theorem context_filter_retained_witness:
  "getMessages (addMessages rejecting_parse new_context_manager
       [(user_msg, False), (assistant_msg, False), (getUser_msg, False),
        (code_execution_msg, False), (assistant_msg, False)])
     = [user_msg, assistant_msg, code_execution_msg, assistant_msg]
   \<and> subseq [user_msg, assistant_msg, code_execution_msg, assistant_msg]
        (map fst [(user_msg, False), (assistant_msg, False), (getUser_msg, False),
                  (code_execution_msg, False), (assistant_msg, False)])"
proof -
  have e: "getMessages (addMessages rejecting_parse new_context_manager
       [(user_msg, False), (assistant_msg, False), (getUser_msg, False),
        (code_execution_msg, False), (assistant_msg, False)])
     = [user_msg, assistant_msg, code_execution_msg, assistant_msg]"
    by (simp add: getMessages_def addMessage_def new_context_manager_def user_msg_def
          assistant_msg_def getUser_msg_def code_execution_msg_def isCodeExecution_def
          isCodeExecutionPart_def getUser_part_def code_execution_part_def)
  show ?thesis
    using context_filter_retained[of rejecting_parse
        "[(user_msg, False), (assistant_msg, False), (getUser_msg, False),
          (code_execution_msg, False), (assistant_msg, False)]"]
    unfolding e by simp
qed

text \<open>
  Claim C6 as stated fails: a tool message that carries a \<^verbatim>\<open>getUser\<close> result next to
  a \<^verbatim>\<open>code_execution\<close> result is retained whole, with the part that is not of
  \<^verbatim>\<open>code_execution\<close>.
\<close>

theorem context_filter_counterexample:
  "getMessages (addMessages rejecting_parse new_context_manager [(mixed_msg, False)]) = [mixed_msg]
   \<and> foreign_tool_results mixed_msg = [getUser_part]"
  by (simp add: getMessages_def addMessage_def new_context_manager_def mixed_msg_def
        isCodeExecution_def isCodeExecutionPart_def getUser_part_def code_execution_part_def
        foreign_tool_results_def)

text \<open>
  Claim C10, as amended.  A message whose role is neither user, assistant nor tool, added
  without the \<^verbatim>\<open>isCodeExecutionResult\<close> option, leaves the retained history and the
  tokens-saved counter as they were.
\<close>

theorem addMessage_other_role_discarded:
  assumes "msg_role m \<noteq> User" and "msg_role m \<noteq> Assistant" and "msg_role m \<noteq> Tool"
  shows "getMessages (addMessage parse cm m False) = getMessages cm
       \<and> getTokensSaved (addMessage parse cm m False) = getTokensSaved cm
       \<and> addMessage parse cm m False = cm"
  using assms by (simp add: addMessage_def)

theorem addMessage_other_role_discarded_witness:
  "msg_role system_msg \<noteq> User \<and> msg_role system_msg \<noteq> Assistant \<and> msg_role system_msg \<noteq> Tool
   \<and> getMessages (addMessage rejecting_parse new_context_manager system_msg False) = []
   \<and> getTokensSaved (addMessage rejecting_parse new_context_manager system_msg False) = 0"
proof -
  have r: "msg_role system_msg \<noteq> User" "msg_role system_msg \<noteq> Assistant"
      "msg_role system_msg \<noteq> Tool"
    by (simp_all add: system_msg_def)
  show ?thesis
    using r addMessage_other_role_discarded[OF r, of rejecting_parse new_context_manager]
    by (simp add: getMessages_def getTokensSaved_def new_context_manager_def)
qed

text \<open>
  Claim C10 as stated fails: with the \<^verbatim>\<open>isCodeExecutionResult\<close> option set the
  role is not looked at, and a system message is retained.
\<close>

theorem addMessage_other_role_counterexample:
  "msg_role system_msg = System
   \<and> getMessages (addMessage rejecting_parse new_context_manager system_msg True) = [system_msg]"
  by (simp add: getMessages_def addMessage_def new_context_manager_def system_msg_def)

section \<open>Properties of the response normalizer\<close>

subsection \<open>Reading an object after assignments\<close>

lemma map_of_js_set: "map_of (js_set kvs k v) = (map_of kvs)(k \<mapsto> v)"
  by (induction kvs) (auto simp: fun_eq_iff)

lemma keys_js_set: "fst ` set (js_set kvs k v) = insert k (fst ` set kvs)"
  by (simp add: dom_map_of_conv_image_fst[symmetric] map_of_js_set)

lemma map_of_fold_js_set:
  "map_of (fold (\<lambda>k t. js_set t k (f k)) ks t) k =
     (if k \<in> set ks then Some (f k) else map_of t k)"
  by (induction ks arbitrary: t) (auto simp: map_of_js_set)

lemma map_of_object_assign:
  "map_of (object_assign t s) k = (case map_of s k of Some v \<Rightarrow> Some v | None \<Rightarrow> map_of t k)"
proof (cases "map_of s k")
  case None
  then have "k \<notin> fst ` set s" by (simp add: map_of_eq_None_iff)
  then show ?thesis using None by (simp add: object_assign_def map_of_fold_js_set)
next
  case (Some v)
  then have "k \<in> fst ` set s" by (metis map_of_eq_None_iff option.distinct(1))
  then show ?thesis using Some by (simp add: object_assign_def map_of_fold_js_set)
qed

lemma map_of_add_aliases:
  "k \<notin> {''text'', ''output'', ''stdout'', ''content'', ''value''} \<Longrightarrow>
   map_of (add_aliases r t) k = map_of r k"
  by (simp add: add_aliases_def Let_def map_of_js_set)

lemma map_of_surface_error:
  "k \<notin> {''error'', ''stderr'', ''success''} \<Longrightarrow>
   map_of (surface_error d r) k = map_of r k"
  by (simp add: surface_error_def map_of_object_assign)

lemma map_of_surface_error_success:
  "map_of (surface_error d r) ''success'' =
     (if truthy (js_get d ''error'') then Some (JBool False) else map_of r ''success'')"
  by (simp add: surface_error_def map_of_object_assign)

lemma map_of_fill_accessors_items:
  assumes "\<forall>kvs. mainData = JObj kvs \<longrightarrow> (\<forall>v. map_of kvs ''items'' = Some v \<longrightarrow> isArray v)"
  shows "\<exists>v. map_of (fst (fill_accessors result mainData t)) ''items'' = Some v \<and> isArray v"
  using assms
  by (cases mainData) (auto simp: fill_accessors_def map_of_object_assign split: option.splits)

lemma map_of_fill_accessors_raw:
  assumes "\<forall>kvs. mainData = JObj kvs \<longrightarrow> map_of kvs ''_raw'' = None"
  shows "map_of (fst (fill_accessors result mainData t)) ''_raw'' = map_of result ''_raw''"
  using assms
  by (cases mainData) (auto simp: fill_accessors_def map_of_object_assign split: option.splits)

lemma map_of_fill_accessors_success:
  assumes "\<forall>kvs. mainData = JObj kvs \<longrightarrow>
             (\<forall>v. map_of kvs ''success'' = Some v \<longrightarrow> (\<exists>b. v = JBool b))"
    and "map_of result ''success'' = Some (JBool b0)"
  shows "\<exists>b. map_of (fst (fill_accessors result mainData t)) ''success'' = Some (JBool b)"
  using assms
  by (cases mainData) (auto simp: fill_accessors_def map_of_object_assign split: option.splits)

subsection \<open>Property keys that are no positions\<close>

lemma digit_char_mem: "d < 10 \<Longrightarrow> digit_char d \<in> set ''0123456789''"
  unfolding digit_char_def by (rule nth_mem) simp

lemma show_nat_chars: "c \<in> set (show_nat n) \<Longrightarrow> c \<in> set ''0123456789''"
proof (induction n rule: show_nat.induct)
  case (1 n)
  show ?case
  proof (cases "n < 10")
    case True
    then have "c = digit_char n" using 1(2) by (subst (asm) show_nat.simps) simp
    then show ?thesis using digit_char_mem[OF True] by simp
  next
    case False
    have m: "n mod 10 < 10" by simp
    from 1(2) False have "c \<in> set (show_nat (n div 10)) \<or> c = digit_char (n mod 10)"
      by (subst (asm) show_nat.simps) auto
    then show ?thesis
    proof
      assume "c \<in> set (show_nat (n div 10))"
      then show ?thesis by (rule 1(1)[OF False])
    next
      assume "c = digit_char (n mod 10)"
      then show ?thesis using digit_char_mem[OF m] by simp
    qed
  qed
qed

lemma index_of_key_None:
  assumes "c \<in> set k" and "c \<notin> set ''0123456789''"
  shows "index_of_key n k = None"
proof -
  have "show_nat i \<noteq> k" for i
    using assms show_nat_chars[of c i] by blast
  then show ?thesis by (simp add: index_of_key_def find_None_iff)
qed

lemma index_of_key_None_hd:
  assumes "k \<noteq> []" and "hd k \<notin> set ''0123456789''"
  shows "index_of_key n k = None"
  by (rule index_of_key_None[of "hd k"]) (use assms in auto)

lemma index_of_key_names [simp]:
  "index_of_key n ''_normalized'' = None"
  "index_of_key n ''success'' = None"
  "index_of_key n ''content'' = None"
  "index_of_key n ''items'' = None"
  "index_of_key n ''_raw'' = None"
  "index_of_key n ''error'' = None"
  "index_of_key n ''isError'' = None"
  "index_of_key n ''data'' = None"
  "index_of_key n ''result'' = None"
  "index_of_key n ''results'' = None"
  "index_of_key n ''markdown'' = None"
  "index_of_key n ''text'' = None"
  "index_of_key n ''stdout'' = None"
  "index_of_key n ''output'' = None"
  by (simp_all add: index_of_key_None_hd)

lemma js_get_primitive [simp]:
  "index_of_key (length s) k = None \<Longrightarrow> k \<noteq> ''length'' \<Longrightarrow> js_get (JStr s) k = JUndefined"
  "index_of_key (length xs) k = None \<Longrightarrow> k \<noteq> ''length'' \<Longrightarrow> js_get (JArr xs) k = JUndefined"
  by simp_all

lemma transform_structure_path:
  assumes "truthy v" and "\<not> isArray (js_get v ''content'')"
  shows "transformMCPResponse parse v =
           Inr (normalizeResponseStructure
                  (if typeof v = ''object'' \<and> \<not> has_key v ''success'' then with_success v else v))"
  using assms by (cases v) (auto simp: transformMCPResponse_def)

lemma normalize_fresh:
  assumes "d \<noteq> JNull" and "d \<noteq> JUndefined" and "\<not> truthy (js_get d ''_normalized'')"
  shows "normalizeResponseStructure d =
     JObj (surface_error d
       (add_aliases
         (fst (fill_accessors
               [(''success'', JBool (js_get d ''success'' \<noteq> JBool False
                                      \<and> \<not> truthy (js_get d ''error'')
                                      \<and> \<not> truthy (js_get d ''isError''))),
                (''_normalized'', JBool True), (''_raw'', d)]
               (unwrap_main d) (extract_text d (unwrap_main d))))
         (snd (fill_accessors
               [(''success'', JBool (js_get d ''success'' \<noteq> JBool False
                                      \<and> \<not> truthy (js_get d ''error'')
                                      \<and> \<not> truthy (js_get d ''isError''))),
                (''_normalized'', JBool True), (''_raw'', d)]
               (unwrap_main d) (extract_text d (unwrap_main d))))))"
  using assms by (simp add: normalizeResponseStructure_def Let_def split_beta)

lemma finished_items:
  "map_of f ''items'' = Some x \<Longrightarrow>
   js_get (JObj (surface_error d (add_aliases f t))) ''items'' = x"
  by (simp add: map_of_surface_error map_of_add_aliases)

lemma finished_raw:
  "map_of f ''_raw'' = Some x \<Longrightarrow>
   js_get (JObj (surface_error d (add_aliases f t))) ''_raw'' = x"
  by (simp add: map_of_surface_error map_of_add_aliases)

lemma finished_success:
  "map_of f ''success'' = Some (JBool b) \<Longrightarrow>
   \<exists>b'. js_get (JObj (surface_error d (add_aliases f t))) ''success'' = JBool b'"
  by (auto simp: map_of_surface_error_success map_of_add_aliases)

text \<open>
  Claim C1, as amended.  Let \<open>v\<close> be an input that reaches structure normalization:
  \<open>v\<close> is truthy and its \<^verbatim>\<open>content\<close> is not a sequence.  Let \<open>d\<close> be the value
  handed on, which is \<open>v\<close> itself when \<open>v\<close> is a primitive or has a \<^verbatim>\<open>success\<close>
  field and \<open>v\<close> with \<^verbatim>\<open>success: true\<close> added otherwise.  If \<open>d\<close> carries no truthy
  \<^verbatim>\<open>_normalized\<close> mark, and its main data, when a record, has no \<^verbatim>\<open>items\<close> field
  that is not a sequence, no \<^verbatim>\<open>success\<close> field that is not a boolean and no
  \<^verbatim>\<open>_raw\<close> field, then the normalizer returns a result whose \<^verbatim>\<open>items\<close> is a
  sequence, whose \<^verbatim>\<open>success\<close> is a boolean and whose \<^verbatim>\<open>_raw\<close> is \<open>d\<close>.
\<close>

theorem structure_normalized_shape:
  fixes parse :: "string \<Rightarrow> jsval option" and v :: jsval
  defines "d \<equiv> (if typeof v = ''object'' \<and> \<not> has_key v ''success'' then with_success v else v)"
  assumes "truthy v"
    and "\<not> isArray (js_get v ''content'')"
    and "\<not> truthy (js_get d ''_normalized'')"
    and "case unwrap_main d of
           JObj kvs \<Rightarrow>
             (has_key (JObj kvs) ''items'' \<longrightarrow> isArray (js_get (JObj kvs) ''items''))
           \<and> (has_key (JObj kvs) ''success'' \<longrightarrow> (\<exists>b. js_get (JObj kvs) ''success'' = JBool b))
           \<and> \<not> has_key (JObj kvs) ''_raw''
         | _ \<Rightarrow> True"
  shows "\<exists>r. transformMCPResponse parse v = Inr r
           \<and> isArray (js_get r ''items'')
           \<and> (\<exists>b. js_get r ''success'' = JBool b)
           \<and> js_get r ''_raw'' = d"
proof -
  let ?init = "[(''success'', JBool (js_get d ''success'' \<noteq> JBool False
                                      \<and> \<not> truthy (js_get d ''error'')
                                      \<and> \<not> truthy (js_get d ''isError''))),
                (''_normalized'', JBool True), (''_raw'', d)]"
  let ?main = "unwrap_main d"
  let ?filled = "fill_accessors ?init ?main (extract_text d ?main)"
  let ?res = "surface_error d (add_aliases (fst ?filled) (snd ?filled))"
  have dn: "d \<noteq> JNull" "d \<noteq> JUndefined"
    using assms(2) by (auto simp: d_def with_success_def)
  have t: "transformMCPResponse parse v = Inr (normalizeResponseStructure d)"
    unfolding d_def by (rule transform_structure_path[OF assms(2,3)])
  have n: "normalizeResponseStructure d = JObj ?res"
    by (rule normalize_fresh[OF dn assms(4)])
  have items_ok: "\<forall>kvs. ?main = JObj kvs \<longrightarrow> (\<forall>x. map_of kvs ''items'' = Some x \<longrightarrow> isArray x)"
  proof (intro allI impI)
    fix kvs x assume m: "?main = JObj kvs" and x: "map_of kvs ''items'' = Some x"
    from x have "''items'' \<in> fst ` set kvs" by (metis map_of_eq_None_iff option.distinct(1))
    with assms(5) m x show "isArray x" by simp
  qed
  have raw_ok: "\<forall>kvs. ?main = JObj kvs \<longrightarrow> map_of kvs ''_raw'' = None"
  proof (intro allI impI)
    fix kvs assume m: "?main = JObj kvs"
    with assms(5) have "''_raw'' \<notin> fst ` set kvs" by simp
    then show "map_of kvs ''_raw'' = None" by (simp add: map_of_eq_None_iff)
  qed
  have succ_ok: "\<forall>kvs. ?main = JObj kvs \<longrightarrow>
             (\<forall>x. map_of kvs ''success'' = Some x \<longrightarrow> (\<exists>b. x = JBool b))"
  proof (intro allI impI)
    fix kvs x assume m: "?main = JObj kvs" and x: "map_of kvs ''success'' = Some x"
    from x have "''success'' \<in> fst ` set kvs" by (metis map_of_eq_None_iff option.distinct(1))
    with assms(5) m x show "\<exists>b. x = JBool b" by simp
  qed
  obtain x where x: "map_of (fst ?filled) ''items'' = Some x" "isArray x"
    using map_of_fill_accessors_items[OF items_ok] by blast
  have i: "isArray (js_get (JObj ?res) ''items'')"
    unfolding finished_items[OF x(1)] by (rule x(2))
  have "map_of (fst ?filled) ''_raw'' = Some d"
    using map_of_fill_accessors_raw[OF raw_ok, where result = ?init] by simp
  then have r: "js_get (JObj ?res) ''_raw'' = d"
    by (rule finished_raw)
  obtain b where "map_of (fst ?filled) ''success'' = Some (JBool b)"
    using map_of_fill_accessors_success[OF succ_ok, where result = ?init] by auto
  then have s: "\<exists>b. js_get (JObj ?res) ''success'' = JBool b"
    by (rule finished_success)
  show ?thesis unfolding t n using i r s by blast
qed


subsection \<open>Primitive inputs, step by step\<close>

lemma js_get_prim:
  assumes "typeof v \<noteq> ''object''" and "k \<noteq> ''length''" and "\<And>n. index_of_key n k = None"
  shows "js_get v k = JUndefined"
  using assms by (cases v) simp_all

lemma unwrap_main_prim: "typeof v \<noteq> ''object'' \<Longrightarrow> unwrap_main v = v"
  by (simp add: unwrap_main_def js_get_prim)

lemma extract_text_prim:
  "typeof v \<noteq> ''object'' \<Longrightarrow> extract_text v v = (if typeof v = ''string'' then v else JStr [])"
  by (simp add: extract_text_def js_get_prim)

lemma fill_accessors_prim:
  "typeof v \<noteq> ''object'' \<Longrightarrow>
   fill_accessors [(''success'', s), (''_normalized'', JBool True), (''_raw'', v)] v t =
     ([(''success'', s), (''_normalized'', JBool True), (''_raw'', v), (''items'', JArr [v]),
       (''data'', v), (''value'', v), (''length'', JNum 1)],
      if typeof v = ''string'' then v else t)"
  by (cases v) (simp_all add: fill_accessors_def object_assign_def)

lemma add_aliases_prim:
  "truthy v \<Longrightarrow> t = v \<or> t = JStr [] \<Longrightarrow>
   add_aliases [(''success'', s), (''_normalized'', JBool True), (''_raw'', v), (''items'', JArr [v]),
       (''data'', v), (''value'', v), (''length'', JNum 1)] t =
     [(''success'', s), (''_normalized'', JBool True), (''_raw'', v), (''items'', JArr [v]),
       (''data'', v), (''value'', v), (''length'', JNum 1),
       (''text'', t), (''output'', t), (''stdout'', t), (''content'', v)]"
  by (auto simp: add_aliases_def js_or_def)

lemma normalize_primitive:
  assumes "truthy v" and "typeof v \<noteq> ''object''"
  shows "normalizeResponseStructure v =
     JObj [(''success'', JBool True), (''_normalized'', JBool True), (''_raw'', v), (''items'', JArr [v]),
       (''data'', v), (''value'', v), (''length'', JNum 1),
       (''text'', if typeof v = ''string'' then v else JStr []),
       (''output'', if typeof v = ''string'' then v else JStr []),
       (''stdout'', if typeof v = ''string'' then v else JStr []),
       (''content'', v)]"
proof -
  have nn: "v \<noteq> JNull" "v \<noteq> JUndefined" using assms by auto
  have g: "js_get v ''_normalized'' = JUndefined" "js_get v ''success'' = JUndefined"
    "js_get v ''error'' = JUndefined" "js_get v ''isError'' = JUndefined"
    using assms(2) by (simp_all add: js_get_prim)
  have f: "\<not> truthy (js_get v ''_normalized'')" by (simp add: g)
  show ?thesis
    unfolding normalize_fresh[OF nn f] unwrap_main_prim[OF assms(2)] extract_text_prim[OF assms(2)] g
    using assms
    by (simp add: fill_accessors_prim add_aliases_prim surface_error_def g)
qed


subsection \<open>Fixed points\<close>

lemma transform_fixed:
  assumes "\<not> truthy r \<or> (truthy (js_get r ''_normalized'') \<and> has_key r ''success''
                         \<and> \<not> isArray (js_get r ''content''))"
  shows "transformMCPResponse parse r = Inr r"
proof (cases "truthy r")
  case False
  then show ?thesis by (simp add: transformMCPResponse_def)
next
  case True
  with assms have n: "truthy (js_get r ''_normalized'')" and s: "has_key r ''success''"
    and c: "\<not> isArray (js_get r ''content'')" by auto
  from n obtain kvs where r: "r = JObj kvs" by (cases r) auto
  have "transformMCPResponse parse r = Inr (normalizeResponseStructure r)"
    using transform_structure_path[OF True c, of parse] s by simp
  moreover have "normalizeResponseStructure r = r"
    using n r by (simp add: normalizeResponseStructure_def)
  ultimately show ?thesis by simp
qed



theorem structure_normalized_shape_witness:
  "\<exists>r. transformMCPResponse rejecting_parse flat_record = Inr r
       \<and> isArray (js_get r ''items'')
       \<and> (\<exists>b. js_get r ''success'' = JBool b)
       \<and> js_get r ''_raw'' = JObj [(''markdown'', JStr ''hi''), (''success'', JBool True)]"
proof -
  have 1: "truthy flat_record" by (simp add: flat_record_def)
  have 2: "\<not> isArray (js_get flat_record ''content'')" by (simp add: flat_record_def)
  have d: "(if typeof flat_record = ''object'' \<and> \<not> has_key flat_record ''success''
            then with_success flat_record else flat_record)
           = JObj [(''markdown'', JStr ''hi''), (''success'', JBool True)]"
    by (simp add: flat_record_def with_success_def)
  have m: "unwrap_main (JObj [(''markdown'', JStr ''hi''), (''success'', JBool True)])
           = JObj [(''markdown'', JStr ''hi''), (''success'', JBool True)]"
    by (simp add: unwrap_main_def)
  show ?thesis
    using structure_normalized_shape[of flat_record rejecting_parse, OF 1 2]
    unfolding d m by auto
qed



subsection \<open>Examples outside the amended claim\<close>

lemma error_envelope_result:
  "transformMCPResponse parse error_envelope = Inr error_result"
  by (simp add: transformMCPResponse_def error_envelope_def error_result_def array_join_def Let_def)

lemma error_result_again:
  "transformMCPResponse parse error_result = Inr (normalizeResponseStructure error_result)"
  by (simp add: transformMCPResponse_def error_result_def)

lemma error_result_normalized:
  "js_get (normalizeResponseStructure error_result) ''_normalized'' = JBool True"
proof -
  have nn: "error_result \<noteq> JNull" "error_result \<noteq> JUndefined" "\<not> truthy (js_get error_result ''_normalized'')"
    by (simp_all add: error_result_def)
  have m: "unwrap_main error_result = error_result"
    by (simp add: unwrap_main_def error_result_def)
  have k: "map_of kvs ''_normalized'' = None" if "error_result = JObj kvs" for kvs
    using that by (auto simp: error_result_def)
  show ?thesis
    unfolding normalize_fresh[OF nn] m
    by (simp add: map_of_surface_error map_of_add_aliases fill_accessors_def error_result_def map_of_object_assign)
qed

lemma flat_record_raw:
  "transformMCPResponse parse flat_record = Inr (normalizeResponseStructure (with_success flat_record))
   \<and> js_get (normalizeResponseStructure (with_success flat_record)) ''_raw''
       = JObj [(''markdown'', JStr ''hi''), (''success'', JBool True)]"
proof -
  let ?d = "JObj [(''markdown'', JStr ''hi''), (''success'', JBool True)]"
  have d: "with_success flat_record = ?d" by (simp add: with_success_def flat_record_def)
  have nn: "?d \<noteq> JNull" "?d \<noteq> JUndefined" "\<not> truthy (js_get ?d ''_normalized'')"
    by simp_all
  have m: "unwrap_main ?d = ?d" by (simp add: unwrap_main_def)
  have 1: "transformMCPResponse parse flat_record = Inr (normalizeResponseStructure ?d)"
    unfolding d[symmetric] by (simp add: transformMCPResponse_def flat_record_def)
  have 2: "js_get (normalizeResponseStructure ?d) ''_raw'' = ?d"
    unfolding normalize_fresh[OF nn] m
    by (simp add: map_of_surface_error map_of_add_aliases fill_accessors_def map_of_object_assign)
  show ?thesis using 1 2 unfolding d by simp
qed

text \<open>
  Claim C1 as stated fails.  A \<^verbatim>\<open>null\<close> response is returned as it is, and so has none
  of the three fields; the result for an MCP error envelope has no \<^verbatim>\<open>items\<close>; and for
  a flat record without a \<^verbatim>\<open>success\<close> field \<^verbatim>\<open>_raw\<close> holds the record with
  \<^verbatim>\<open>success: true\<close> added, not the original.
\<close>

theorem structure_normalized_counterexample:
  "transformMCPResponse rejecting_parse JNull = Inr JNull
   \<and> transformMCPResponse rejecting_parse error_envelope = Inr error_result
   \<and> js_get error_result ''items'' = JUndefined
   \<and> (case transformMCPResponse rejecting_parse flat_record of
         Inr r \<Rightarrow> js_get r ''_raw'' | Inl e \<Rightarrow> JUndefined)
       = JObj [(''markdown'', JStr ''hi''), (''success'', JBool True)]
   \<and> flat_record \<noteq> JObj [(''markdown'', JStr ''hi''), (''success'', JBool True)]"
proof -
  have 1: "transformMCPResponse rejecting_parse JNull = Inr JNull"
    by (simp add: transformMCPResponse_def)
  have 3: "js_get error_result ''items'' = JUndefined" by (simp add: error_result_def)
  have 5: "flat_record \<noteq> JObj [(''markdown'', JStr ''hi''), (''success'', JBool True)]"
    by (simp add: flat_record_def)
  show ?thesis
    using 1 3 5 error_envelope_result[of rejecting_parse] flat_record_raw[of rejecting_parse]
    by simp
qed

subsection \<open>Idempotence\<close>

lemma transform_primitive:
  assumes "truthy v" and "typeof v \<noteq> ''object''"
  shows "transformMCPResponse parse v =
     Inr (JObj [(''success'', JBool True), (''_normalized'', JBool True), (''_raw'', v), (''items'', JArr [v]),
       (''data'', v), (''value'', v), (''length'', JNum 1),
       (''text'', if typeof v = ''string'' then v else JStr []),
       (''output'', if typeof v = ''string'' then v else JStr []),
       (''stdout'', if typeof v = ''string'' then v else JStr []),
       (''content'', v)])"
proof -
  have c: "\<not> isArray (js_get v ''content'')" using assms(2) by (simp add: js_get_prim)
  show ?thesis
    unfolding transform_structure_path[OF assms(1) c] using assms
    by (simp add: normalize_primitive)
qed

text \<open>
  Claim C2, as amended.  A second application of the normalizer returns its first result
  \<open>r\<close> unchanged whenever \<open>r\<close> is falsy, or \<open>r\<close> carries a truthy \<^verbatim>\<open>_normalized\<close>
  mark and a \<^verbatim>\<open>success\<close> field and its \<^verbatim>\<open>content\<close> is not a sequence.  Every
  truthy primitive input (a non-empty string, a number other than zero, \<^verbatim>\<open>true\<close>) has such
  a result, so on these the normalizer is idempotent.
\<close>

theorem normalizer_fixed_points:
  "(transformMCPResponse parse x = Inr r
      \<and> (\<not> truthy r \<or> (truthy (js_get r ''_normalized'') \<and> has_key r ''success''
                         \<and> \<not> isArray (js_get r ''content'')))
      \<longrightarrow> transformMCPResponse parse r = Inr r)
   \<and> (truthy v \<and> typeof v \<noteq> ''object''
      \<longrightarrow> (\<exists>r. transformMCPResponse parse v = Inr r \<and> transformMCPResponse parse r = Inr r))"
proof (intro conjI impI)
  assume "transformMCPResponse parse x = Inr r
      \<and> (\<not> truthy r \<or> (truthy (js_get r ''_normalized'') \<and> has_key r ''success''
                         \<and> \<not> isArray (js_get r ''content'')))"
  then show "transformMCPResponse parse r = Inr r" by (intro transform_fixed) blast
next
  assume a: "truthy v \<and> typeof v \<noteq> ''object''"
  let ?r = "JObj [(''success'', JBool True), (''_normalized'', JBool True), (''_raw'', v), (''items'', JArr [v]),
       (''data'', v), (''value'', v), (''length'', JNum 1),
       (''text'', if typeof v = ''string'' then v else JStr []),
       (''output'', if typeof v = ''string'' then v else JStr []),
       (''stdout'', if typeof v = ''string'' then v else JStr []),
       (''content'', v)]"
  have 1: "transformMCPResponse parse v = Inr ?r"
    using a by (intro transform_primitive) auto
  have "\<not> isArray v" using a by (cases v) auto
  then have 2: "transformMCPResponse parse ?r = Inr ?r"
    by (intro transform_fixed) simp
  show "\<exists>r. transformMCPResponse parse v = Inr r \<and> transformMCPResponse parse r = Inr r"
    using 1 2 by blast
qed

theorem normalizer_fixed_points_witness:
  "transformMCPResponse rejecting_parse (JStr ''hello'') = Inr hello_result
   \<and> truthy (js_get hello_result ''_normalized'') \<and> has_key hello_result ''success''
   \<and> \<not> isArray (js_get hello_result ''content'')
   \<and> transformMCPResponse rejecting_parse hello_result = Inr hello_result
   \<and> truthy (JStr ''hello'') \<and> typeof (JStr ''hello'') \<noteq> ''object''"
proof -
  have 1: "transformMCPResponse rejecting_parse (JStr ''hello'') = Inr hello_result"
    by (simp add: transform_primitive hello_result_def)
  have 2: "truthy (js_get hello_result ''_normalized'')" "has_key hello_result ''success''"
     "\<not> isArray (js_get hello_result ''content'')"
    by (simp_all add: hello_result_def)
  show ?thesis
    using normalizer_fixed_points[of rejecting_parse "JStr ''hello''" hello_result "JStr ''hello''"] 1 2
    by simp
qed

text \<open>
  Claim C2 as stated fails: the result for an MCP error envelope carries no
  \<^verbatim>\<open>_normalized\<close> mark, and a second application wraps it in a new record that does.
\<close>

theorem normalizer_idempotent_counterexample:
  "transformMCPResponse rejecting_parse error_envelope = Inr error_result
   \<and> transformMCPResponse rejecting_parse error_result \<noteq> Inr error_result"
proof -
  have "js_get error_result ''_normalized'' = JUndefined" by (simp add: error_result_def)
  then have "normalizeResponseStructure error_result \<noteq> error_result"
    using error_result_normalized by auto
  then show ?thesis by (simp add: error_envelope_result error_result_again)
qed


section \<open>Properties of the parameter normalizer and the bridge\<close>

subsection \<open>What each step of a request touches\<close>

lemma learnOutputSchema_fields:
  "toolSchemas (learnOutputSchema b name v) = toolSchemas b"
  "mcpTools (learnOutputSchema b name v) = mcpTools b"
  "failedCallSignatures (learnOutputSchema b name v) = failedCallSignatures b"
  "toolCallRecords (learnOutputSchema b name v) = toolCallRecords b"
  "executed (learnOutputSchema b name v) = executed b"
  "parameterWarnings (learnOutputSchema b name v) = parameterWarnings b"
  by (simp_all add: learnOutputSchema_def Let_def split: option.splits)

lemma try_execute_fields:
  "toolSchemas (snd (try_execute parse b req a)) = toolSchemas b"
  "mcpTools (snd (try_execute parse b req a)) = mcpTools b"
  "failedCallSignatures (snd (try_execute parse b req a)) = failedCallSignatures b"
  "toolCallRecords (snd (try_execute parse b req a)) = toolCallRecords b"
  "learnedOutputSchemas (snd (try_execute parse b req a)) = learnedOutputSchemas b"
  "parameterWarnings (snd (try_execute parse b req a)) = parameterWarnings b"
  by (simp_all add: try_execute_def Let_def split: option.splits outcome.splits sum.splits)

lemma request_failed_fields:
  "toolSchemas (snd (request_failed ms b req a sig c msg)) = toolSchemas b"
  "mcpTools (snd (request_failed ms b req a sig c msg)) = mcpTools b"
  "failedCallSignatures (snd (request_failed ms b req a sig c msg))
     = (failedCallSignatures b)(sig \<mapsto> c + 1)"
  "executed (snd (request_failed ms b req a sig c msg)) = executed b"
  "resp_error (fst (request_failed ms b req a sig c msg)) \<noteq> None"
  by (simp_all add: request_failed_def Let_def)

lemma request_succeeded_fields:
  "toolSchemas (snd (request_succeeded ms b req a sig raw t)) = toolSchemas b"
  "mcpTools (snd (request_succeeded ms b req a sig raw t)) = mcpTools b"
  "failedCallSignatures (snd (request_succeeded ms b req a sig raw t))
     = (failedCallSignatures b)(sig := None)"
  "executed (snd (request_succeeded ms b req a sig raw t)) = executed b"
  "resp_error (fst (request_succeeded ms b req a sig raw t)) = None"
  by (simp_all add: request_succeeded_def Let_def learnOutputSchema_fields)

text \<open>The three ways a call whose arguments normalize can go.\<close>

lemma handleRequest_cases:
  assumes n: "normalizeParameters str2num (req_toolName req) (req_args req)
                (case toolSchemas b (req_toolName req) of Some s \<Rightarrow> s | None \<Rightarrow> JUndefined) = Inr n"
  defines "b1 \<equiv> (if warnings n \<noteq> []
                   then b\<lparr>parameterWarnings := (parameterWarnings b)(req_toolName req \<mapsto> warnings n)\<rparr>
                   else b)"
  defines "sig \<equiv> getCallSignature (req_toolName req) (normalized n)"
  shows "handleRequest parse str2num ms b req =
     (if MAX_RETRIES \<le> failCount b sig then
        (Inr \<lparr> resp_callId = req_callId req, resp_data = JUndefined,
               resp_error = Some (''Tool '' @ req_toolName req @ '' failed ''
                            @ show_nat (failCount b sig)
                            @ '' times with same parameters. Check parameter format.'') \<rparr>, b1)
      else case fst (try_execute parse b1 req (normalized n)) of
             Inl msg \<Rightarrow> map_prod Inr id (request_failed ms (snd (try_execute parse b1 req (normalized n)))
                                           req (normalized n) sig (failCount b sig) msg)
           | Inr rt \<Rightarrow> map_prod Inr id (request_succeeded ms (snd (try_execute parse b1 req (normalized n)))
                                           req (normalized n) sig (fst rt) (snd rt)))"
proof -
  have c: "failCount b1 sig = failCount b sig" by (simp add: b1_def failCount_def)
  show ?thesis
    unfolding handleRequest_def n Let_def sum.case b1_def[symmetric] sig_def[symmetric] c
    by (simp split: prod.splits sum.splits)
qed


subsection \<open>The failure count of a signature\<close>

lemma request_signature_SomeD:
  assumes "request_signature str2num b req = Some sig"
  obtains n where
    "normalizeParameters str2num (req_toolName req) (req_args req)
       (case toolSchemas b (req_toolName req) of Some s \<Rightarrow> s | None \<Rightarrow> JUndefined) = Inr n"
    "sig = getCallSignature (req_toolName req) (normalized n)"
  using assms by (auto simp: request_signature_def split: sum.splits)

lemma handleRequest_toolSchemas:
  "toolSchemas (snd (handleRequest parse str2num ms b req)) = toolSchemas b"
proof (cases "normalizeParameters str2num (req_toolName req) (req_args req)
                (case toolSchemas b (req_toolName req) of Some s \<Rightarrow> s | None \<Rightarrow> JUndefined)")
  case (Inl e)
  then show ?thesis by (simp add: handleRequest_def)
next
  case (Inr n)
  show ?thesis
    unfolding handleRequest_cases[OF Inr]
    by (simp add: request_failed_fields request_succeeded_fields try_execute_fields
             split: sum.splits)
qed

lemma request_signature_after:
  "request_signature str2num (snd (handleRequest parse str2num' ms b req)) q
     = request_signature str2num b q"
  by (simp add: request_signature_def handleRequest_toolSchemas)

lemma blocked_call:
  assumes "request_signature str2num b req = Some sig" and "MAX_RETRIES \<le> failCount b sig"
  shows "failed (handleRequest parse str2num ms b req)"
    and "executed (snd (handleRequest parse str2num ms b req)) = executed b"
    and "toolCallRecords (snd (handleRequest parse str2num ms b req)) = toolCallRecords b"
    and "failedCallSignatures (snd (handleRequest parse str2num ms b req)) = failedCallSignatures b"
proof -
  from assms(1) obtain n where
    n: "normalizeParameters str2num (req_toolName req) (req_args req)
       (case toolSchemas b (req_toolName req) of Some s \<Rightarrow> s | None \<Rightarrow> JUndefined) = Inr n"
    and s: "sig = getCallSignature (req_toolName req) (normalized n)"
    by (rule request_signature_SomeD)
  show "failed (handleRequest parse str2num ms b req)"
    and "executed (snd (handleRequest parse str2num ms b req)) = executed b"
    and "toolCallRecords (snd (handleRequest parse str2num ms b req)) = toolCallRecords b"
    and "failedCallSignatures (snd (handleRequest parse str2num ms b req)) = failedCallSignatures b"
    unfolding handleRequest_cases[OF n] using assms(2) s by (simp_all add: failed_def)
qed

lemma failed_call_counts:
  assumes "request_signature str2num b req = Some sig"
    and "failed (handleRequest parse str2num ms b req)"
  shows "failCount (snd (handleRequest parse str2num ms b req)) sig
           = (if MAX_RETRIES \<le> failCount b sig then failCount b sig else failCount b sig + 1)"
proof -
  from assms(1) obtain n where
    n: "normalizeParameters str2num (req_toolName req) (req_args req)
       (case toolSchemas b (req_toolName req) of Some s \<Rightarrow> s | None \<Rightarrow> JUndefined) = Inr n"
    and s: "sig = getCallSignature (req_toolName req) (normalized n)"
    by (rule request_signature_SomeD)
  show ?thesis
    using assms(2) unfolding handleRequest_cases[OF n] s[symmetric]
    by (auto simp: failed_def failCount_def request_failed_fields request_succeeded_fields
             split: sum.splits if_splits)
qed

lemma served_call_clears:
  assumes "request_signature str2num b req = Some sig"
    and "\<not> failed (handleRequest parse str2num ms b req)"
  shows "failedCallSignatures (snd (handleRequest parse str2num ms b req)) sig = None"
proof -
  from assms(1) obtain n where
    n: "normalizeParameters str2num (req_toolName req) (req_args req)
       (case toolSchemas b (req_toolName req) of Some s \<Rightarrow> s | None \<Rightarrow> JUndefined) = Inr n"
    and s: "sig = getCallSignature (req_toolName req) (normalized n)"
    by (rule request_signature_SomeD)
  show ?thesis
    using assms(2) unfolding handleRequest_cases[OF n] s[symmetric]
    by (auto simp: failed_def request_failed_fields request_succeeded_fields
             split: sum.splits if_splits)
qed

text \<open>
  Claim C4.  Three calls of \<^verbatim>\<open>handleRequest\<close> in a row that have the same signature of
  tool name and normalized arguments and each return an error response leave the failure
  count of the signature at \<^verbatim>\<open>MAX_RETRIES\<close> = 3 or above, and the next call with that
  signature returns an error response without a call of the tool's \<^verbatim>\<open>execute\<close>.  A
  call that returns a data response leaves its signature without a failure count.
\<close>

theorem circuit_breaker_opens:
  "(request_signature str2num b0 q1 = Some sig \<and> request_signature str2num b0 q2 = Some sig
    \<and> request_signature str2num b0 q3 = Some sig \<and> request_signature str2num b0 q4 = Some sig
    \<and> res1 = handleRequest parse str2num ms1 b0 q1 \<and> failed res1
    \<and> res2 = handleRequest parse str2num ms2 (snd res1) q2 \<and> failed res2
    \<and> res3 = handleRequest parse str2num ms3 (snd res2) q3 \<and> failed res3
    \<longrightarrow> MAX_RETRIES \<le> failCount (snd res3) sig
        \<and> failed (handleRequest parse str2num ms4 (snd res3) q4)
        \<and> executed (snd (handleRequest parse str2num ms4 (snd res3) q4)) = executed (snd res3))
   \<and> (request_signature str2num b q = Some sig' \<and> \<not> failed (handleRequest parse str2num ms b q)
      \<longrightarrow> failedCallSignatures (snd (handleRequest parse str2num ms b q)) sig' = None
          \<and> failCount (snd (handleRequest parse str2num ms b q)) sig' = 0)"
proof (intro conjI impI)
  assume a: "request_signature str2num b0 q1 = Some sig \<and> request_signature str2num b0 q2 = Some sig
    \<and> request_signature str2num b0 q3 = Some sig \<and> request_signature str2num b0 q4 = Some sig
    \<and> res1 = handleRequest parse str2num ms1 b0 q1 \<and> failed res1
    \<and> res2 = handleRequest parse str2num ms2 (snd res1) q2 \<and> failed res2
    \<and> res3 = handleRequest parse str2num ms3 (snd res2) q3 \<and> failed res3"
  then have r1: "res1 = handleRequest parse str2num ms1 b0 q1"
    and r2: "res2 = handleRequest parse str2num ms2 (snd res1) q2"
    and r3: "res3 = handleRequest parse str2num ms3 (snd res2) q3" by simp_all
  have s1: "request_signature str2num b0 q1 = Some sig" using a by simp
  have s2: "request_signature str2num (snd res1) q2 = Some sig"
    using a unfolding r1 by (simp add: request_signature_after)
  have s3: "request_signature str2num (snd res2) q3 = Some sig"
    using a unfolding r2 r1 by (simp add: request_signature_after)
  have s4: "request_signature str2num (snd res3) q4 = Some sig"
    using a unfolding r3 r2 r1 by (simp add: request_signature_after)
  have f1: "failed (handleRequest parse str2num ms1 b0 q1)" using a by blast
  have f2: "failed (handleRequest parse str2num ms2 (snd res1) q2)" using a by blast
  have f3: "failed (handleRequest parse str2num ms3 (snd res2) q3)" using a by blast
  have c1: "1 \<le> failCount (snd res1) sig"
    unfolding r1 failed_call_counts[OF s1 f1] by (simp add: MAX_RETRIES_def)
  have c2: "2 \<le> failCount (snd res2) sig"
    unfolding r2 failed_call_counts[OF s2 f2] using c1 by (simp add: MAX_RETRIES_def)
  show c3: "MAX_RETRIES \<le> failCount (snd res3) sig"
    unfolding r3 failed_call_counts[OF s3 f3] using c2 by (simp add: MAX_RETRIES_def)
  show "failed (handleRequest parse str2num ms4 (snd res3) q4)"
    by (rule blocked_call(1)[OF s4 c3])
  show "executed (snd (handleRequest parse str2num ms4 (snd res3) q4)) = executed (snd res3)"
    by (rule blocked_call(2)[OF s4 c3])
next
  assume a: "request_signature str2num b q = Some sig' \<and> \<not> failed (handleRequest parse str2num ms b q)"
  then show c: "failedCallSignatures (snd (handleRequest parse str2num ms b q)) sig' = None"
    using served_call_clears by blast
  then show "failCount (snd (handleRequest parse str2num ms b q)) sig' = 0"
    by (simp add: failCount_def)
qed


lemma normalize_x1:
  "normalizeParameters str2num name (JObj [(''x'', JNum 1)]) JUndefined
     = Inr \<lparr> normalized = JObj [(''x'', JNum 1)], warnings = [], isValid = True \<rparr>"
  by (simp add: normalizeParameters_def wrap_primitive_def json_clone_def)

lemma signature_x1:
  \<open>getCallSignature name (JObj [(''x'', JNum 1)]) = name @ '':{"x":1}''\<close>
  by (simp add: getCallSignature_def JSON_stringify_def quote_json_def escape_char_def
        show_int_def digit_char_def)

lemma flaky_signature:
  assumes "toolSchemas b = toolSchemas flaky_bridge"
  shows \<open>request_signature str2num b (flaky_request c) = Some ''mcp_flaky:{"x":1}''\<close>
  using assms
  by (simp add: request_signature_def flaky_request_def flaky_bridge_def new_bridge_def
        flaky_tool_def normalize_x1 signature_x1)

lemma flaky_fails:
  assumes "toolSchemas b = toolSchemas flaky_bridge" and "mcpTools b = mcpTools flaky_bridge"
  shows "failed (handleRequest parse str2num ms b (flaky_request c))"
proof -
  have n: "normalizeParameters str2num (req_toolName (flaky_request c)) (req_args (flaky_request c))
       (case toolSchemas b (req_toolName (flaky_request c)) of Some s \<Rightarrow> s | None \<Rightarrow> JUndefined)
       = Inr \<lparr> normalized = JObj [(''x'', JNum 1)], warnings = [], isValid = True \<rparr>"
    using assms(1)
    by (simp add: flaky_request_def flaky_bridge_def new_bridge_def flaky_tool_def normalize_x1)
  have t: "mcpTools b ''mcp_flaky'' = Some flaky_tool"
    using assms(2) by (simp add: flaky_bridge_def new_bridge_def)
  show ?thesis
    unfolding handleRequest_cases[OF n]
    by (simp add: failed_def try_execute_def t flaky_tool_def flaky_request_def
          request_failed_fields)
qed

lemma handleRequest_mcpTools:
  "mcpTools (snd (handleRequest parse str2num ms b req)) = mcpTools b"
proof (cases "normalizeParameters str2num (req_toolName req) (req_args req)
                (case toolSchemas b (req_toolName req) of Some s \<Rightarrow> s | None \<Rightarrow> JUndefined)")
  case (Inl e)
  then show ?thesis by (simp add: handleRequest_def)
next
  case (Inr n)
  show ?thesis
    unfolding handleRequest_cases[OF Inr]
    by (simp add: request_failed_fields request_succeeded_fields try_execute_fields
             split: sum.splits)
qed

lemma steady_serves:
  \<open>request_signature str2num steady_bridge steady_request = Some ''mcp_steady:{"x":1}''\<close>
  "\<not> failed (handleRequest parse str2num ms steady_bridge steady_request)"
proof -
  show \<open>request_signature str2num steady_bridge steady_request = Some ''mcp_steady:{"x":1}''\<close>
    by (simp add: request_signature_def steady_request_def steady_bridge_def new_bridge_def
        steady_tool_def normalize_x1 signature_x1)
  have n: "normalizeParameters str2num (req_toolName steady_request) (req_args steady_request)
       (case toolSchemas steady_bridge (req_toolName steady_request) of Some s \<Rightarrow> s | None \<Rightarrow> JUndefined)
       = Inr \<lparr> normalized = JObj [(''x'', JNum 1)], warnings = [], isValid = True \<rparr>"
    by (simp add: steady_request_def steady_bridge_def new_bridge_def steady_tool_def normalize_x1)
  have t: "transformMCPResponse parse (JStr ''ok'') = Inr (normalizeResponseStructure (JStr ''ok''))"
    by (simp add: transformMCPResponse_def)
  show "\<not> failed (handleRequest parse str2num ms steady_bridge steady_request)"
    unfolding handleRequest_cases[OF n]
    by (simp add: failed_def try_execute_def steady_tool_def steady_request_def steady_bridge_def
          new_bridge_def request_succeeded_fields failCount_def MAX_RETRIES_def t)
qed

theorem circuit_breaker_opens_witness:
  \<open>request_signature no_number flaky_bridge (flaky_request ''c1'') = Some ''mcp_flaky:{"x":1}''
   \<and> failed (handleRequest rejecting_parse no_number 7 flaky_bridge (flaky_request ''c1''))
   \<and> failed (handleRequest rejecting_parse no_number 7
        (snd (handleRequest rejecting_parse no_number 7 flaky_bridge (flaky_request ''c1'')))
        (flaky_request ''c2''))
   \<and> failed (handleRequest rejecting_parse no_number 7
        (snd (handleRequest rejecting_parse no_number 7
           (snd (handleRequest rejecting_parse no_number 7 flaky_bridge (flaky_request ''c1'')))
           (flaky_request ''c2'')))
        (flaky_request ''c3''))
   \<and> failed (handleRequest rejecting_parse no_number 7
        (snd (handleRequest rejecting_parse no_number 7
           (snd (handleRequest rejecting_parse no_number 7
              (snd (handleRequest rejecting_parse no_number 7 flaky_bridge (flaky_request ''c1'')))
              (flaky_request ''c2'')))
           (flaky_request ''c3'')))
        (flaky_request ''c4''))
   \<and> executed (snd (handleRequest rejecting_parse no_number 7
        (snd (handleRequest rejecting_parse no_number 7
           (snd (handleRequest rejecting_parse no_number 7
              (snd (handleRequest rejecting_parse no_number 7 flaky_bridge (flaky_request ''c1'')))
              (flaky_request ''c2'')))
           (flaky_request ''c3'')))
        (flaky_request ''c4'')))
     = executed (snd (handleRequest rejecting_parse no_number 7
           (snd (handleRequest rejecting_parse no_number 7
              (snd (handleRequest rejecting_parse no_number 7 flaky_bridge (flaky_request ''c1'')))
              (flaky_request ''c2'')))
           (flaky_request ''c3'')))
   \<and> request_signature no_number steady_bridge steady_request = Some ''mcp_steady:{"x":1}''
   \<and> \<not> failed (handleRequest rejecting_parse no_number 7 steady_bridge steady_request)
   \<and> failedCallSignatures (snd (handleRequest rejecting_parse no_number 7 steady_bridge steady_request))
        ''mcp_steady:{"x":1}'' = None\<close>
proof -
  let ?h = "handleRequest rejecting_parse no_number 7"
  let ?r1 = "?h flaky_bridge (flaky_request ''c1'')"
  let ?r2 = "?h (snd ?r1) (flaky_request ''c2'')"
  let ?r3 = "?h (snd ?r2) (flaky_request ''c3'')"
  have s: \<open>request_signature no_number flaky_bridge (flaky_request c) = Some ''mcp_flaky:{"x":1}''\<close> for c
    by (rule flaky_signature) simp
  have f1: "failed ?r1" by (rule flaky_fails) simp_all
  have f2: "failed ?r2"
    by (rule flaky_fails) (simp_all add: handleRequest_toolSchemas handleRequest_mcpTools)
  have f3: "failed ?r3"
    by (rule flaky_fails) (simp_all add: handleRequest_toolSchemas handleRequest_mcpTools)
  show ?thesis
    using circuit_breaker_opens[where str2num = no_number and parse = rejecting_parse
        and ?b0.0 = flaky_bridge and sig = \<open>''mcp_flaky:{"x":1}''\<close>
        and ?q1.0 = "flaky_request ''c1''" and ?q2.0 = "flaky_request ''c2''"
        and ?q3.0 = "flaky_request ''c3''" and ?q4.0 = "flaky_request ''c4''"
        and ?res1.0 = ?r1 and ?res2.0 = ?r2 and ?res3.0 = ?r3
        and ?ms1.0 = 7 and ?ms2.0 = 7 and ?ms3.0 = 7 and ?ms4.0 = 7
        and b = steady_bridge and q = steady_request and ms = 7
        and sig' = \<open>''mcp_steady:{"x":1}''\<close>]
      s f1 f2 f3 steady_serves(1)[of no_number] steady_serves(2)[of rejecting_parse no_number 7]
    by simp
qed


subsection \<open>Wrapping of primitive arguments\<close>

lemma wrap_primitive_number:
  "wrap_primitive toolName (JNum n) (JNum n, w) = (JNum n, w)"
  "wrap_primitive toolName (JBool b) (JBool b, w) = (JBool b, w)"
  by (simp_all add: wrap_primitive_def)

text \<open>
  Claim C3, at the inputs where the code leaves it.  The comment over the branch reads "If
  args is a primitive (string, number, boolean), try to wrap it", but inside the branch only
  a string and an array are wrapped: a number or a boolean argument comes out as it went
  in, with no warning, and is not a record.
\<close>

theorem number_and_boolean_not_wrapped:
  "normalizeParameters str2num toolName (JNum n) JUndefined
     = Inr \<lparr> normalized = JNum n, warnings = [], isValid = True \<rparr>
   \<and> normalizeParameters str2num toolName (JBool b) JUndefined
     = Inr \<lparr> normalized = JBool b, warnings = [], isValid = True \<rparr>"
  by (simp add: normalizeParameters_def wrap_primitive_number json_clone_def)

text \<open>For a string argument and no schema the heuristic is as the claim says.\<close>

lemma string_wrapped_by_name:
  "\<exists>r. normalizeParameters str2num toolName (JStr s) JUndefined = Inr r
     \<and> normalized r =
         (if str_includes toolName ''scrape'' \<or> str_includes toolName ''crawl''
            then JObj [(''url'', JStr s)]
          else if str_includes toolName ''search'' then JObj [(''query'', JStr s)]
          else if str_includes toolName ''extract'' then JObj [(''urls'', JArr [JStr s])]
          else JObj [(''input'', JStr s)])"
  by (simp add: normalizeParameters_def wrap_primitive_def json_clone_def)

subsection \<open>The short-circuited call\<close>

text \<open>
  Claim C9, as amended.  When \<^verbatim>\<open>handleRequest\<close> is short-circuited by the circuit
  breaker (the failure count of the request's signature is at least 3), it returns the
  error response that names the count, the tool's \<^verbatim>\<open>execute\<close> is not called, no
  tool-call record is appended, and the failure counts, the learned schemas, the tools and
  their cached schemas stay as they were.  The one field of the bridge that can change is
  \<^verbatim>\<open>parameterWarnings\<close>: the entry of the tool is overwritten with the warnings of
  this call's normalization when there are any.
\<close>

theorem circuit_open_leaves_state:
  assumes "normalizeParameters str2num (req_toolName req) (req_args req)
             (case toolSchemas b (req_toolName req) of Some s \<Rightarrow> s | None \<Rightarrow> JUndefined) = Inr n"
    and "MAX_RETRIES \<le> failCount b (getCallSignature (req_toolName req) (normalized n))"
  shows "handleRequest parse str2num ms b req =
           (Inr \<lparr> resp_callId = req_callId req, resp_data = JUndefined,
                  resp_error = Some (''Tool '' @ req_toolName req @ '' failed ''
                     @ show_nat (failCount b (getCallSignature (req_toolName req) (normalized n)))
                     @ '' times with same parameters. Check parameter format.'') \<rparr>,
            if warnings n = [] then b
            else b\<lparr>parameterWarnings := (parameterWarnings b)(req_toolName req \<mapsto> warnings n)\<rparr>)
       \<and> executed (snd (handleRequest parse str2num ms b req)) = executed b
       \<and> toolCallRecords (snd (handleRequest parse str2num ms b req)) = toolCallRecords b
       \<and> failedCallSignatures (snd (handleRequest parse str2num ms b req)) = failedCallSignatures b
       \<and> learnedOutputSchemas (snd (handleRequest parse str2num ms b req)) = learnedOutputSchemas b
       \<and> mcpTools (snd (handleRequest parse str2num ms b req)) = mcpTools b
       \<and> toolSchemas (snd (handleRequest parse str2num ms b req)) = toolSchemas b"
  unfolding handleRequest_cases[OF assms(1)] using assms(2) by simp

lemma normalize_null:
  "normalizeParameters str2num name JNull JUndefined
     = Inr \<lparr> normalized = JObj [], warnings = [''Args was null/undefined, using empty object''],
             isValid = True \<rparr>"
  by (simp add: normalizeParameters_def wrap_primitive_def json_clone_def)

lemma tripped_facts:
  "toolSchemas tripped_bridge ''mcp_flaky'' = None"
  "failCount tripped_bridge ''mcp_flaky:{}'' = 3"
  "parameterWarnings tripped_bridge ''mcp_flaky'' = None"
  "getCallSignature ''mcp_flaky'' (JObj []) = ''mcp_flaky:{}''"
  by (simp_all add: tripped_bridge_def flaky_bridge_def new_bridge_def flaky_tool_def failCount_def
        getCallSignature_def JSON_stringify_def)

theorem circuit_open_leaves_state_witness:
  "normalizeParameters no_number (req_toolName null_request) (req_args null_request) JUndefined
     = Inr \<lparr> normalized = JObj [], warnings = [''Args was null/undefined, using empty object''],
             isValid = True \<rparr>
   \<and> MAX_RETRIES \<le> failCount tripped_bridge ''mcp_flaky:{}''
   \<and> handleRequest rejecting_parse no_number 7 tripped_bridge null_request =
        (Inr \<lparr> resp_callId = ''c4'', resp_data = JUndefined,
               resp_error = Some ''Tool mcp_flaky failed 3 times with same parameters. Check parameter format.'' \<rparr>,
         tripped_bridge\<lparr>parameterWarnings :=
            (parameterWarnings tripped_bridge)(''mcp_flaky'' \<mapsto> [''Args was null/undefined, using empty object''])\<rparr>)
   \<and> executed (snd (handleRequest rejecting_parse no_number 7 tripped_bridge null_request))
        = executed tripped_bridge
   \<and> toolCallRecords (snd (handleRequest rejecting_parse no_number 7 tripped_bridge null_request))
        = toolCallRecords tripped_bridge
   \<and> failedCallSignatures (snd (handleRequest rejecting_parse no_number 7 tripped_bridge null_request))
        = failedCallSignatures tripped_bridge"
proof -
  have n: "normalizeParameters no_number (req_toolName null_request) (req_args null_request)
             (case toolSchemas tripped_bridge (req_toolName null_request) of
                Some s \<Rightarrow> s | None \<Rightarrow> JUndefined)
           = Inr \<lparr> normalized = JObj [], warnings = [''Args was null/undefined, using empty object''],
                   isValid = True \<rparr>"
    by (simp add: null_request_def tripped_facts normalize_null)
  have c: "MAX_RETRIES \<le> failCount tripped_bridge
             (getCallSignature (req_toolName null_request)
                (normalized \<lparr> normalized = JObj [],
                   warnings = [''Args was null/undefined, using empty object''], isValid = True \<rparr>))"
    by (simp add: null_request_def tripped_facts MAX_RETRIES_def)
  show ?thesis
    using circuit_open_leaves_state[OF n c, of rejecting_parse 7] n
    by (simp add: null_request_def tripped_facts MAX_RETRIES_def digit_char_def)
qed

text \<open>
  Claim C9 as stated fails: the warnings of the normalization are stored before the
  failure count is looked at, so a short-circuited call changes the bridge's
  \<^verbatim>\<open>parameterWarnings\<close>.
\<close>

theorem circuit_open_counterexample:
  "request_signature no_number tripped_bridge null_request = Some ''mcp_flaky:{}''
   \<and> failCount tripped_bridge ''mcp_flaky:{}'' = 3
   \<and> parameterWarnings tripped_bridge ''mcp_flaky'' = None
   \<and> parameterWarnings (snd (handleRequest rejecting_parse no_number 7 tripped_bridge null_request))
        ''mcp_flaky'' = Some [''Args was null/undefined, using empty object'']"
proof -
  have n: "normalizeParameters no_number (req_toolName null_request) (req_args null_request)
             (case toolSchemas tripped_bridge (req_toolName null_request) of
                Some s \<Rightarrow> s | None \<Rightarrow> JUndefined)
           = Inr \<lparr> normalized = JObj [], warnings = [''Args was null/undefined, using empty object''],
                   isValid = True \<rparr>"
    by (simp add: null_request_def tripped_facts normalize_null)
  have s: "request_signature no_number tripped_bridge null_request = Some ''mcp_flaky:{}''"
    unfolding request_signature_def n by (simp add: null_request_def tripped_facts)
  have w: "parameterWarnings (snd (handleRequest rejecting_parse no_number 7 tripped_bridge null_request))
        ''mcp_flaky'' = Some [''Args was null/undefined, using empty object'']"
    unfolding handleRequest_cases[OF n]
    by (simp add: null_request_def tripped_facts MAX_RETRIES_def)
  show ?thesis using s w by (simp add: tripped_facts)
qed

section \<open>Properties of the response files\<close>

subsection \<open>The characters of a serialisation\<close>

lemma set_join: "set (join sep xs) \<subseteq> set sep \<union> \<Union> (set ` set xs)"
  by (induction sep xs rule: join.induct) auto

lemma digit_not_special:
  assumes "c \<in> set ''0123456789''"
  shows "c \<noteq> CHR 0x0A" and "c \<noteq> CHR 0x27"
  using assms by auto

lemma show_int_chars:
  assumes "c \<in> set (show_int i)"
  shows "c \<noteq> CHR 0x0A \<and> c \<noteq> CHR 0x27"
proof (cases "i < 0")
  case True
  then have "c = CHR ''-'' \<or> c \<in> set (show_nat (nat (- i)))"
    using assms by (simp add: show_int_def)
  then show ?thesis
  proof
    assume "c = CHR ''-''"
    then show ?thesis by simp
  next
    assume "c \<in> set (show_nat (nat (- i)))"
    then have "c \<in> set ''0123456789''" by (rule show_nat_chars)
    then show ?thesis using digit_not_special by blast
  qed
next
  case False
  then have "c \<in> set (show_nat (nat i))" using assms by (simp add: show_int_def)
  then have "c \<in> set ''0123456789''" by (rule show_nat_chars)
  then show ?thesis using digit_not_special by blast
qed

lemma hex_char_mem: "d < 16 \<Longrightarrow> hex_char d \<in> set ''0123456789abcdef''"
  unfolding hex_char_def by (rule nth_mem) simp

lemma hex_not_special:
  assumes "c \<in> set ''0123456789abcdef''"
  shows "c \<noteq> CHR 0x0A" and "c \<noteq> CHR 0x27"
  using assms by auto

lemma escape_char_chars:
  assumes "x \<in> set (escape_char c)" and "x = CHR 0x0A \<or> x = CHR 0x27"
  shows "x = CHR 0x27 \<and> c = CHR 0x27"
proof -
  have d: "(of_char c :: nat) < 32 \<Longrightarrow> (of_char c :: nat) div 16 < 16" by simp
  have m: "(of_char c :: nat) mod 16 < 16" by simp
  have h1: "hex_char (of_char c mod 16) \<noteq> CHR 0x0A" "hex_char (of_char c mod 16) \<noteq> CHR 0x27"
    using hex_not_special[OF hex_char_mem[OF m]] by blast+
  have h2: "(of_char c :: nat) < 32 \<Longrightarrow> hex_char (of_char c div 16) \<noteq> CHR 0x0A"
       "(of_char c :: nat) < 32 \<Longrightarrow> hex_char (of_char c div 16) \<noteq> CHR 0x27"
    using hex_not_special[OF hex_char_mem[OF d]] by blast+
  show ?thesis
    using assms h1 h2
    by (auto simp: escape_char_def split: if_splits)
qed

lemma quote_json_chars:
  assumes "x \<in> set (quote_json s)" and "x = CHR 0x0A \<or> x = CHR 0x27"
  shows "x = CHR 0x27 \<and> CHR 0x27 \<in> set s"
proof -
  from assms have "x \<in> set (concat (map escape_char s))"
    by (auto simp: quote_json_def)
  then obtain c where c: "c \<in> set s" "x \<in> set (escape_char c)" by auto
  from escape_char_chars[OF c(2) assms(2)] c(1) show ?thesis by simp
qed

lemma quote_json_no_newline: "CHR 0x0A \<notin> set (quote_json s)"
  using quote_json_chars[of "CHR 0x0A" s] by auto

lemma stringify_no_newline: "CHR 0x0A \<notin> set (stringify_val v)"
proof (induction v)
  case (JNum n)
  show ?case using show_int_chars[of "CHR 0x0A" n] by auto
next
  case (JStr s)
  show ?case using quote_json_no_newline by simp
next
  case (JArr xs)
  have "CHR 0x0A \<notin> set (join '','' (map stringify_val xs))"
    using set_join[of "'',''" "map stringify_val xs"] JArr by auto
  then show ?case by simp
next
  case (JObj kvs)
  have "CHR 0x0A \<notin> set (quote_json k @ '':'' @ stringify_val v)" if "(k, v) \<in> set kvs" for k v
    using that JObj quote_json_no_newline[of k] by (force simp: snds.simps)
  then have "CHR 0x0A \<notin> set (join '','' (map (\<lambda>(k, v). quote_json k @ '':'' @ stringify_val v)
        (filter (\<lambda>(k, v). v \<noteq> JUndefined) kvs)))"
    using set_join[of "'',''" "map (\<lambda>(k, v). quote_json k @ '':'' @ stringify_val v)
        (filter (\<lambda>(k, v). v \<noteq> JUndefined) kvs)"] by fastforce
  then show ?case by simp
qed simp_all

lemma error_json: "stringify_val (JObj [(''error'', JStr msg)]) = ''{'' @ quote_json ''error'' @ '':'' @ quote_json msg @ ''}''"
  by simp

lemma error_json_no_quote:
  assumes "CHR 0x27 \<notin> set msg"
  shows "CHR 0x27 \<notin> set (stringify_val (JObj [(''error'', JStr msg)]))"
proof -
  have "CHR 0x27 \<notin> set (quote_json msg)" using quote_json_chars[of "CHR 0x27" msg] assms by auto
  moreover have "CHR 0x27 \<notin> set (quote_json ''error'')" using quote_json_chars[of "CHR 0x27" "''error''"] by auto
  ultimately show ?thesis unfolding error_json by simp
qed

subsection \<open>Lexing the two commands\<close>

lemma plain_char_not_special:
  assumes "plain_char c"
  shows "c \<noteq> CHR '' ''" "c \<noteq> CHR 0x09" "c \<noteq> CHR 0x27" "c \<noteq> CHR 0x22" "c \<noteq> CHR ''>''"
    "c \<noteq> CHR ''<''" "c \<noteq> CHR 0x0A"
  using assms unfolding plain_char_def by auto

lemma fold_add_char_Some: "fold add_char w (Some (q, u)) = Some (q, u @ w)"
  by (induction w arbitrary: u) (simp_all add: add_char_def)

lemma fold_add_char_None: "w \<noteq> [] \<Longrightarrow> fold add_char w None = Some (False, w)"
  by (cases w) (simp_all add: add_char_def fold_add_char_Some)

lemma lex_plain_word:
  "list_all plain_char w \<Longrightarrow> lex Plain cur acc (w @ rest) = lex Plain (fold add_char w cur) acc rest"
proof (induction w arbitrary: cur)
  case Nil
  show ?case by simp
next
  case (Cons c w)
  then have c: "plain_char c" and w: "list_all plain_char w" by simp_all
  have "lex Plain cur acc ((c # w) @ rest) = lex Plain (add_char c cur) acc (w @ rest)"
    using c plain_char_not_special[OF c] by simp
  then show ?case using Cons.IH[OF w] by simp
qed

lemma lex_single_text:
  "CHR 0x27 \<notin> set s \<Longrightarrow>
   lex Single cur acc (s @ CHR 0x27 # rest) = lex Plain (fold add_char s cur) acc rest"
  by (induction s arbitrary: cur) auto

lemma lex_plain_end:
  assumes "list_all plain_char w" and "w \<noteq> []"
  shows "lex Plain None acc w = Ok (rev (Word False w # acc))"
  using lex_plain_word[OF assms(1), of None acc "[]"] fold_add_char_None[OF assms(2)]
  by (simp add: push_word_def)

lemma plain_echo: "list_all plain_char ''echo''"
  by (simp add: plain_char_def)

lemma plain_cat: "list_all plain_char ''cat''"
  by (simp add: plain_char_def)

lemma lex_echo:
  assumes "CHR 0x27 \<notin> set s" and "list_all plain_char p" and "p \<noteq> []"
  shows "lex Plain None [] (''echo '' @ [CHR 0x27] @ s @ [CHR 0x27] @ '' > '' @ p)
           = Ok [Word False ''echo'', Word True s, Redirect_out, Word False p]"
proof -
  have "lex Plain None [] (''echo '' @ [CHR 0x27] @ s @ [CHR 0x27] @ '' > '' @ p)
      = lex Plain None [] (''echo'' @ (CHR '' '' # CHR 0x27 # s @ CHR 0x27 # '' > '' @ p))"
    by simp
  also have "\<dots> = lex Plain (Some (False, ''echo'')) [] (CHR '' '' # CHR 0x27 # s @ CHR 0x27 # '' > '' @ p)"
    by (subst lex_plain_word[OF plain_echo]) (simp add: add_char_def)
  also have "\<dots> = lex Single (Some (True, [])) [Word False ''echo''] (s @ CHR 0x27 # '' > '' @ p)"
    by (simp add: push_word_def open_quote_def)
  also have "\<dots> = lex Plain (fold add_char s (Some (True, []))) [Word False ''echo''] ('' > '' @ p)"
    by (rule lex_single_text[OF assms(1)])
  also have "\<dots> = lex Plain None [Redirect_out, Word True s, Word False ''echo''] (CHR '' '' # p)"
    by (simp add: fold_add_char_Some push_word_def)
  also have "\<dots> = lex Plain None [Redirect_out, Word True s, Word False ''echo''] p"
    by (simp add: push_word_def)
  also have "\<dots> = Ok [Word False ''echo'', Word True s, Redirect_out, Word False p]"
    by (simp add: lex_plain_end[OF assms(2,3)])
  finally show ?thesis .
qed

lemma lex_cat:
  assumes "list_all plain_char p" and "p \<noteq> []"
  shows "lex Plain None [] (''cat > '' @ p @ '' << '' @ [CHR 0x27] @ ''RESULT_EOF'' @ [CHR 0x27])
           = Ok [Word False ''cat'', Redirect_out, Word False p, Here_doc, Word True ''RESULT_EOF'']"
proof -
  have "lex Plain None [] (''cat > '' @ p @ '' << '' @ [CHR 0x27] @ ''RESULT_EOF'' @ [CHR 0x27])
      = lex Plain None [] (''cat'' @ ('' > '' @ p @ '' << '' @ [CHR 0x27] @ ''RESULT_EOF'' @ [CHR 0x27]))"
    by simp
  also have "\<dots> = lex Plain (Some (False, ''cat'')) [] ('' > '' @ p @ '' << '' @ [CHR 0x27] @ ''RESULT_EOF'' @ [CHR 0x27])"
    by (subst lex_plain_word[OF plain_cat]) (simp add: add_char_def)
  also have "\<dots> = lex Plain None [Redirect_out, Word False ''cat''] (p @ '' << '' @ [CHR 0x27] @ ''RESULT_EOF'' @ [CHR 0x27])"
    by (simp add: push_word_def)
  also have "\<dots> = lex Plain (Some (False, p)) [Redirect_out, Word False ''cat''] ('' << '' @ [CHR 0x27] @ ''RESULT_EOF'' @ [CHR 0x27])"
    by (subst lex_plain_word[OF assms(1)]) (simp add: fold_add_char_None[OF assms(2)])
  also have "\<dots> = lex Single (Some (True, [])) [Here_doc, Word False p, Redirect_out, Word False ''cat''] (''RESULT_EOF'' @ [CHR 0x27])"
    by (simp add: push_word_def open_quote_def)
  also have "\<dots> = Ok [Word False ''cat'', Redirect_out, Word False p, Here_doc, Word True ''RESULT_EOF'']"
    by (simp add: push_word_def add_char_def)
  finally show ?thesis .
qed

lemma split_lines_single: "CHR 0x0A \<notin> set a \<Longrightarrow> split_lines a = [a]"
  by (induction a) auto

lemma split_lines_append:
  "CHR 0x0A \<notin> set a \<Longrightarrow> split_lines (a @ CHR 0x0A # b) = a # split_lines b"
  by (induction a) auto

lemma plain_no_newline: "list_all plain_char p \<Longrightarrow> CHR 0x0A \<notin> set p"
  using plain_char_not_special(7) by (auto simp: list_all_iff)

subsection \<open>Running the two commands\<close>

lemma replace_first_plain:
  "list_all plain_char s \<Longrightarrow> list_all plain_char rep \<Longrightarrow> list_all plain_char (replace_first s pat rep)"
proof (induction s)
  case Nil
  then show ?case by simp
next
  case (Cons c cs)
  have "list_all plain_char (drop n (c # cs))" for n
    using Cons.prems(1) unfolding list_all_iff by (meson in_set_dropD)
  then show ?case using Cons by simp
qed

lemma replace_first_nonempty:
  "s \<noteq> [] \<Longrightarrow> rep \<noteq> [] \<Longrightarrow> replace_first s pat rep \<noteq> []"
  by (cases s) simp_all

lemma result_path_plain:
  assumes "list_all plain_char filePath" and "filePath \<noteq> []"
  shows "list_all plain_char (local_result_path filePath)" and "local_result_path filePath \<noteq> []"
    and "list_all plain_char (mcp_result_path filePath)" and "mcp_result_path filePath \<noteq> []"
  using replace_first_plain[OF assms(1), of "''tool_result_''" "''tool_call_''"]
    replace_first_plain[OF assms(1), of "''mcp_result_''" "''mcp_call_''"]
    replace_first_nonempty[OF assms(2), of "''tool_result_''" "''tool_call_''"]
    replace_first_nonempty[OF assms(2), of "''mcp_result_''" "''mcp_call_''"]
  by (simp_all add: local_result_path_def mcp_result_path_def plain_char_def)

lemma data_json_not_delimiter: "stringify_val (JObj [(''data'', result)]) \<noteq> ''RESULT_EOF''"
  by simp

lemma run_script_here_doc:
  assumes "split_lines script = first # body # [delim]"
    and "lex Plain None [] first = Ok [Word qc ''cat'', Redirect_out, Word qp p, Here_doc, Word True delim]"
    and "body \<noteq> delim"
  shows "run_script script = Ok (p, body @ [CHR 0x0A])"
  unfolding run_script_def using assms by simp

lemma run_script_echo:
  assumes "split_lines script = [line]"
    and "lex Plain None [] line = Ok [Word qc ''echo'', Word qw w, Redirect_out, Word qp p]"
    and "\<not> prefix ''-'' w"
  shows "run_script script = Ok (p, w @ [CHR 0x0A])"
  unfolding run_script_def using assms by simp

lemma run_data_response:
  assumes "list_all plain_char p" and "p \<noteq> []"
  shows "run_script (data_response_command p result)
           = Ok (p, stringify_val (JObj [(''data'', result)]) @ [CHR 0x0A])"
proof -
  let ?first = "''cat > '' @ p @ '' << '' @ [CHR 0x27] @ ''RESULT_EOF'' @ [CHR 0x27]"
  let ?json = "stringify_val (JObj [(''data'', result)])"
  have first: "CHR 0x0A \<notin> set ?first"
    using plain_no_newline[OF assms(1)] by simp
  have json: "CHR 0x0A \<notin> set ?json" by (rule stringify_no_newline)
  have "data_response_command p result = ?first @ CHR 0x0A # (?json @ CHR 0x0A # ''RESULT_EOF'')"
    by (simp add: data_response_command_def)
  then have "split_lines (data_response_command p result)
      = ?first # split_lines (?json @ CHR 0x0A # ''RESULT_EOF'')"
    using split_lines_append[OF first] by simp
  also have "split_lines (?json @ CHR 0x0A # ''RESULT_EOF'') = ?json # split_lines ''RESULT_EOF''"
    by (rule split_lines_append[OF json])
  also have "split_lines ''RESULT_EOF'' = [''RESULT_EOF'']"
    by (rule split_lines_single) simp
  finally have lines: "split_lines (data_response_command p result) = [?first, ?json, ''RESULT_EOF'']" .
  show ?thesis
    by (rule run_script_here_doc[OF lines lex_cat[OF assms] data_json_not_delimiter])
qed

lemma run_echo_command:
  assumes "list_all plain_char p" and "p \<noteq> []"
    and "CHR 0x27 \<notin> set json" and "CHR 0x0A \<notin> set json" and "\<not> prefix ''-'' json"
  shows "run_script (''echo '' @ [CHR 0x27] @ json @ [CHR 0x27] @ '' > '' @ p)
           = Ok (p, json @ [CHR 0x0A])"
proof -
  let ?cmd = "''echo '' @ [CHR 0x27] @ json @ [CHR 0x27] @ '' > '' @ p"
  have "CHR 0x0A \<notin> set ?cmd"
    using plain_no_newline[OF assms(1)] assms(4) by simp
  then have lines: "split_lines ?cmd = [?cmd]"
    by (rule split_lines_single)
  have toks: "lex Plain None [] ?cmd
      = Ok [Word False ''echo'', Word True json, Redirect_out, Word False p]"
    by (rule lex_echo[OF assms(3,1,2)])
  show ?thesis
    by (rule run_script_echo[OF lines toks assms(5)])
qed

lemma run_error_response:
  assumes "list_all plain_char p" and "p \<noteq> []" and "CHR 0x27 \<notin> set msg"
  shows "run_script (error_response_command p msg)
           = Ok (p, stringify_val (JObj [(''error'', JStr msg)]) @ [CHR 0x0A])"
proof -
  let ?json = "stringify_val (JObj [(''error'', JStr msg)])"
  have q: "CHR 0x27 \<notin> set ?json" by (rule error_json_no_quote[OF assms(3)])
  have n: "CHR 0x0A \<notin> set ?json" by (rule stringify_no_newline)
  have dash: "\<not> prefix ''-'' ?json" by simp
  show ?thesis
    unfolding error_response_command_def by (rule run_echo_command[OF assms(1,2) q n dash])
qed

lemma run_echo_data_response:
  assumes "list_all plain_char p" and "p \<noteq> []"
    and "CHR 0x27 \<notin> set (stringify_val (JObj [(''data'', result)]))"
  shows "run_script (echo_data_response_command p result)
           = Ok (p, stringify_val (JObj [(''data'', result)]) @ [CHR 0x0A])"
proof -
  let ?json = "stringify_val (JObj [(''data'', result)])"
  have n: "CHR 0x0A \<notin> set ?json" by (rule stringify_no_newline)
  have dash: "\<not> prefix ''-'' ?json" by simp
  show ?thesis
    unfolding echo_data_response_command_def by (rule run_echo_command[OF assms(1,2,3) n dash])
qed

subsection \<open>The content of a response file\<close>

text \<open>
  Claim C5, as amended.  For a request file whose path is made of letters, digits and
  \<^verbatim>\<open>_ . / -\<close> (the worker's paths are), the response file holds the serialisation
  named below, followed by a newline.  In the compiled sandbox: when a local tool returns,
  or the bridge answers with a response that has no error or an empty error message,
  \<^verbatim>\<open>JSON.stringify({ data: result })\<close>; when a local tool throws a message without an
  apostrophe, or the bridge answers with a non-empty error message without an apostrophe
  or throws one, \<^verbatim>\<open>JSON.stringify({ error: message })\<close>.  In the monitor of
  \<^verbatim>\<open>src/lib/sandbox.ts\<close>: when the tool returns and
  \<^verbatim>\<open>JSON.stringify({ data: result })\<close> has no apostrophe in it, that serialisation; when
  the tool throws a message without an apostrophe,
  \<^verbatim>\<open>JSON.stringify({ error: message })\<close>.
\<close>

theorem response_file_content:
  assumes "list_all plain_char filePath" and "filePath \<noteq> []"
  shows "run_script (local_response_command filePath (Returns result))
           = Ok (local_result_path filePath, stringify_val (JObj [(''data'', result)]) @ [CHR 0x0A])
       \<and> (CHR 0x27 \<notin> set msg \<longrightarrow>
            run_script (local_response_command filePath (Throws msg))
              = Ok (local_result_path filePath,
                    stringify_val (JObj [(''error'', JStr msg)]) @ [CHR 0x0A]))
       \<and> run_script (mcp_response_command filePath
              (Inr \<lparr> resp_callId = callId, resp_data = result, resp_error = None \<rparr>))
           = Ok (mcp_result_path filePath, stringify_val (JObj [(''data'', result)]) @ [CHR 0x0A])
       \<and> run_script (mcp_response_command filePath
              (Inr \<lparr> resp_callId = callId, resp_data = result, resp_error = Some [] \<rparr>))
           = Ok (mcp_result_path filePath, stringify_val (JObj [(''data'', result)]) @ [CHR 0x0A])
       \<and> (msg \<noteq> [] \<and> CHR 0x27 \<notin> set msg \<longrightarrow>
            run_script (mcp_response_command filePath
              (Inr \<lparr> resp_callId = callId, resp_data = result, resp_error = Some msg \<rparr>))
              = Ok (mcp_result_path filePath,
                    stringify_val (JObj [(''error'', JStr msg)]) @ [CHR 0x0A]))
       \<and> (CHR 0x27 \<notin> set (error_message e) \<longrightarrow>
            run_script (mcp_response_command filePath (Inl e))
              = Ok (mcp_result_path filePath,
                    stringify_val (JObj [(''error'', JStr (error_message e))]) @ [CHR 0x0A]))
       \<and> (CHR 0x27 \<notin> set (stringify_val (JObj [(''data'', result)])) \<longrightarrow>
            run_script (monitor_response_command filePath (Returns result))
              = Ok (local_result_path filePath,
                    stringify_val (JObj [(''data'', result)]) @ [CHR 0x0A]))
       \<and> (CHR 0x27 \<notin> set msg \<longrightarrow>
            run_script (monitor_response_command filePath (Throws msg))
              = Ok (local_result_path filePath,
                    stringify_val (JObj [(''error'', JStr msg)]) @ [CHR 0x0A]))"
proof -
  note lp = result_path_plain(1,2)[OF assms]
  note mp = result_path_plain(3,4)[OF assms]
  have c1: "run_script (local_response_command filePath (Returns result))
           = Ok (local_result_path filePath, stringify_val (JObj [(''data'', result)]) @ [CHR 0x0A])"
    unfolding local_response_command_def outcome.case by (rule run_data_response[OF lp])
  have c2: "run_script (local_response_command filePath (Throws msg))
              = Ok (local_result_path filePath,
                    stringify_val (JObj [(''error'', JStr msg)]) @ [CHR 0x0A])"
    if "CHR 0x27 \<notin> set msg"
    unfolding local_response_command_def outcome.case by (rule run_error_response[OF lp that])
  have c3: "run_script (mcp_response_command filePath
              (Inr \<lparr> resp_callId = callId, resp_data = result, resp_error = None \<rparr>))
           = Ok (mcp_result_path filePath, stringify_val (JObj [(''data'', result)]) @ [CHR 0x0A])"
    using run_data_response[OF mp, of result]
    by (simp add: mcp_response_command_def del: stringify_val.simps)
  have c4: "run_script (mcp_response_command filePath
              (Inr \<lparr> resp_callId = callId, resp_data = result, resp_error = Some [] \<rparr>))
           = Ok (mcp_result_path filePath, stringify_val (JObj [(''data'', result)]) @ [CHR 0x0A])"
    using run_data_response[OF mp, of result]
    by (simp add: mcp_response_command_def del: stringify_val.simps)
  have c5: "run_script (mcp_response_command filePath
              (Inr \<lparr> resp_callId = callId, resp_data = result, resp_error = Some msg \<rparr>))
              = Ok (mcp_result_path filePath,
                    stringify_val (JObj [(''error'', JStr msg)]) @ [CHR 0x0A])"
    if "msg \<noteq> [] \<and> CHR 0x27 \<notin> set msg"
    using run_error_response[OF mp, of msg] that
    by (simp add: mcp_response_command_def del: stringify_val.simps)
  have c6: "run_script (mcp_response_command filePath (Inl e))
              = Ok (mcp_result_path filePath,
                    stringify_val (JObj [(''error'', JStr (error_message e))]) @ [CHR 0x0A])"
    if "CHR 0x27 \<notin> set (error_message e)"
    using run_error_response[OF mp that]
    by (simp add: mcp_response_command_def del: stringify_val.simps)
  have c7: "run_script (monitor_response_command filePath (Returns result))
              = Ok (local_result_path filePath,
                    stringify_val (JObj [(''data'', result)]) @ [CHR 0x0A])"
    if "CHR 0x27 \<notin> set (stringify_val (JObj [(''data'', result)]))"
    unfolding monitor_response_command_def outcome.case
    by (rule run_echo_data_response[OF lp that])
  have c8: "run_script (monitor_response_command filePath (Throws msg))
              = Ok (local_result_path filePath,
                    stringify_val (JObj [(''error'', JStr msg)]) @ [CHR 0x0A])"
    if "CHR 0x27 \<notin> set msg"
    unfolding monitor_response_command_def outcome.case by (rule run_error_response[OF lp that])
  from c1 c2 c3 c4 c5 c6 c7 c8 show ?thesis by blast
qed

lemma local_path_example: "local_result_path ''/tmp/tool_call_17-abc.json'' = ''/tmp/tool_result_17-abc.json''"
  by (simp add: local_result_path_def)

lemma mcp_path_example: "mcp_result_path ''/tmp/mcp_call_mcp_17_abc.json'' = ''/tmp/mcp_result_mcp_17_abc.json''"
  by (simp add: mcp_result_path_def)

lemma plain_examples:
  "list_all plain_char ''/tmp/tool_call_17-abc.json''"
  "list_all plain_char ''/tmp/mcp_call_mcp_17_abc.json''"
  "list_all plain_char ''/tmp/tool_result_17-abc.json''"
  "list_all plain_char ''/tmp/mcp_result_mcp_17_abc.json''"
  by (simp_all add: plain_char_def)

lemma json_examples:
  \<open>stringify_val (JObj [(''data'', JNum 7)]) = ''{"data":7}''\<close>
  \<open>stringify_val (JObj [(''error'', JStr ''boom'')]) = ''{"error":"boom"}''\<close>
  \<open>stringify_val (JObj [(''data'', JUndefined)]) = ''{}''\<close>
  by (simp_all add: quote_json_def escape_char_def show_int_def digit_char_def)

text \<open>A call that returns 7, and a call that fails with the message \<^verbatim>\<open>boom\<close>, on each
  path.\<close>

theorem response_file_content_witness:
  \<open>run_script (local_response_command ''/tmp/tool_call_17-abc.json'' (Returns (JNum 7)))
     = Ok (''/tmp/tool_result_17-abc.json'', ''{"data":7}'' @ [CHR 0x0A])
   \<and> run_script (local_response_command ''/tmp/tool_call_17-abc.json'' (Throws ''boom''))
     = Ok (''/tmp/tool_result_17-abc.json'', ''{"error":"boom"}'' @ [CHR 0x0A])
   \<and> run_script (mcp_response_command ''/tmp/mcp_call_mcp_17_abc.json''
         (Inr \<lparr> resp_callId = ''mcp_17_abc'', resp_data = JNum 7, resp_error = None \<rparr>))
     = Ok (''/tmp/mcp_result_mcp_17_abc.json'', ''{"data":7}'' @ [CHR 0x0A])
   \<and> run_script (mcp_response_command ''/tmp/mcp_call_mcp_17_abc.json''
         (Inr \<lparr> resp_callId = ''mcp_17_abc'', resp_data = JNum 7, resp_error = Some [] \<rparr>))
     = Ok (''/tmp/mcp_result_mcp_17_abc.json'', ''{"data":7}'' @ [CHR 0x0A])
   \<and> run_script (mcp_response_command ''/tmp/mcp_call_mcp_17_abc.json''
         (Inr \<lparr> resp_callId = ''mcp_17_abc'', resp_data = JNum 7, resp_error = Some ''boom'' \<rparr>))
     = Ok (''/tmp/mcp_result_mcp_17_abc.json'', ''{"error":"boom"}'' @ [CHR 0x0A])
   \<and> run_script (mcp_response_command ''/tmp/mcp_call_mcp_17_abc.json'' (Inl (Error ''boom'')))
     = Ok (''/tmp/mcp_result_mcp_17_abc.json'', ''{"error":"boom"}'' @ [CHR 0x0A])
   \<and> run_script (monitor_response_command ''/tmp/tool_call_17-abc.json'' (Returns (JNum 7)))
     = Ok (''/tmp/tool_result_17-abc.json'', ''{"data":7}'' @ [CHR 0x0A])
   \<and> run_script (monitor_response_command ''/tmp/tool_call_17-abc.json'' (Throws ''boom''))
     = Ok (''/tmp/tool_result_17-abc.json'', ''{"error":"boom"}'' @ [CHR 0x0A])\<close>
  using response_file_content[OF plain_examples(1), where result = "JNum 7" and msg = "''boom''"
      and callId = "''mcp_17_abc''" and e = "Error ''boom''"]
    response_file_content[OF plain_examples(2), where result = "JNum 7" and msg = "''boom''"
      and callId = "''mcp_17_abc''" and e = "Error ''boom''"]
  unfolding error_message.simps json_examples local_path_example mcp_path_example
  by simp

text \<open>
  The claim as it stands: a tool that returns \<^verbatim>\<open>undefined\<close> has the response file
  \<^verbatim>\<open>{}\<close>, an object with no \<^verbatim>\<open>data\<close> member, since \<^verbatim>\<open>JSON.stringify\<close> leaves
  out a property whose value is \<^verbatim>\<open>undefined\<close>.
\<close>

theorem response_file_counterexample:
  "run_script (local_response_command ''/tmp/tool_call_17-abc.json'' (Returns JUndefined))
     = Ok (''/tmp/tool_result_17-abc.json'', ''{}'' @ [CHR 0x0A])"
  using run_data_response[OF plain_examples(3), of JUndefined]
  by (simp add: local_response_command_def local_path_example)

text \<open>An error response of the bridge whose message is empty is written as a data response;
  with no data in it, that is \<^verbatim>\<open>{}\<close> again.\<close>

lemma empty_message_written_as_data:
  "run_script (mcp_response_command ''/tmp/mcp_call_mcp_17_abc.json''
       (Inr \<lparr> resp_callId = ''mcp_17_abc'', resp_data = JUndefined, resp_error = Some [] \<rparr>))
     = Ok (''/tmp/mcp_result_mcp_17_abc.json'', ''{}'' @ [CHR 0x0A])"
  using run_data_response[OF plain_examples(4), of JUndefined]
  by (simp add: mcp_response_command_def mcp_path_example)

subsection \<open>An apostrophe between the single quotes\<close>

text \<open>
  The branches that use \<^verbatim>\<open>echo\<close> put the serialisation between single quotes on the
  command line, so an apostrophe in it ends the quoted text.  With one apostrophe the quote
  that follows is never closed and the shell runs nothing: no response file is written.
  With two, the command runs and writes the text without them.  The error branches of the
  compiled sandbox are open to this, and both branches of the monitor of
  \<^verbatim>\<open>src/lib/sandbox.ts\<close>.
\<close>

lemma apostrophe_unbalanced:
  "run_script (local_response_command ''/tmp/tool_call_17-abc.json'' (Throws ''can't reach host''))
     = Syntax_error"
  by (simp add: run_script_def local_response_command_def local_result_path_def
      error_response_command_def quote_json_def escape_char_def plain_char_def
      add_char_def open_quote_def push_word_def)

lemma apostrophes_balanced:
  \<open>run_script (mcp_response_command ''/tmp/mcp_call_mcp_17_abc.json'' (Inl (cannot_read JNull ''type'')))
     = Ok (''/tmp/mcp_result_mcp_17_abc.json'',
           ''{"error":"Cannot read properties of null (reading type)"}'' @ [CHR 0x0A])\<close>
  by (simp add: run_script_def mcp_response_command_def mcp_result_path_def cannot_read_def
      error_response_command_def quote_json_def escape_char_def plain_char_def
      add_char_def open_quote_def push_word_def)

lemma apostrophe_in_data:
  "run_script (monitor_response_command ''/tmp/tool_call_17-abc.json'' (Returns (JStr ''it's'')))
     = Syntax_error"
  by (simp add: run_script_def monitor_response_command_def local_result_path_def
      echo_data_response_command_def quote_json_def escape_char_def plain_char_def
      add_char_def open_quote_def push_word_def)
section \<open>Properties of the file protocol\<close>

subsection \<open>What a monitor step keeps\<close>


lemma keys_unlink: "fst ` set (unlink p fs) = fst ` set fs - {p}"
  by (auto simp: unlink_def image_iff)




subsection \<open>What every step keeps\<close>













subsection \<open>Servicing and listings\<close>


subsection \<open>The example runs\<close>








end
